theory Spec2Isabelle
  imports Main "HOL-Library.Sublist"
begin

section \<open>JavaScript values and string primitives\<close>

text \<open>
  A JavaScript value of type \<open>string | undefined\<close> (or \<open>null\<close>) is a \<open>string option\<close>;
  \<open>===\<close> between two such values is equality of options. Strings are byte lists (UTF-8).
\<close>

text \<open>Truthiness of a \<open>string | undefined\<close>: defined and not the empty string.\<close>

definition truthy :: "string option \<Rightarrow> bool" where
  "truthy v = (case v of None \<Rightarrow> False | Some s \<Rightarrow> s \<noteq> [])"

text \<open>Interpolation into a template literal: \<open>undefined\<close> prints as the word itself.\<close>

definition interpolate :: "string option \<Rightarrow> string" where
  "interpolate v = (case v of None \<Rightarrow> ''undefined'' | Some s \<Rightarrow> s)"

text \<open>\<open>s.replace(pat, '')\<close> with a string pattern: the first occurrence of \<open>pat\<close> is removed.\<close>

fun remove_first :: "string \<Rightarrow> string \<Rightarrow> string" where
  "remove_first pat [] = []"
| "remove_first pat (c # cs) =
     (if prefix pat (c # cs) then drop (length pat) (c # cs) else c # remove_first pat cs)"

text \<open>\<open>s.replace(/^\//, '')\<close>: one leading slash is removed.\<close>

definition strip_leading_slash :: "string \<Rightarrow> string" where
  "strip_leading_slash s = (case s of [] \<Rightarrow> [] | c # cs \<Rightarrow> if c = CHR ''/'' then cs else s)"

text \<open>Errors thrown by the service, by the runtime, or by a collaborator's \<open>send\<close>.\<close>

datatype error =
    Error string
  | TypeError
  | RangeError
  | Rejected string
  | SyntaxError

section \<open>Data model\<close>

text \<open>
  The CloudFront SDK shapes the service reads. \<open>Id'\<close> is the SDK's \<open>Id\<close>; an optional
  container and its optional \<open>Items\<close> (read only through \<open>?.Items?.\<close>) are one option.
\<close>

record Origin =
  Id' :: "string option"
  DomainName :: "string option"
  OriginPath :: "string option"

record CacheBehavior =
  PathPattern :: "string option"
  TargetOriginId :: "string option"
  ViewerProtocolPolicy :: "string option"

record DefaultCacheBehavior =
  Default_TargetOriginId :: "string option"
  Default_ViewerProtocolPolicy :: "string option"

record DistributionConfig =
  Aliases :: "string list option"
  Origins :: "Origin list option"
  DefaultCacheBehavior :: "DefaultCacheBehavior option"
  CacheBehaviors :: "CacheBehavior list option"

record Distribution =
  Distribution_DomainName :: "string option"
  DistributionConfig :: "DistributionConfig option"

record UploadOptions =
  ACL :: "string option"
  CacheControl :: "string option"
  ServerSideEncryption :: "string option"
  StorageClass :: "string option"

text \<open>
  The fields of \<open>AwsStorageService\<close>; a trailing underscore of the source is written as a
  prime. The two SDK clients are the environment below.
\<close>

record service =
  protocol' :: string
  cloudFrontDistributionId' :: "string option"
  uploadOptions' :: UploadOptions
  domainName' :: "string option"
  s3OriginPath' :: "string option"
  cacheBehaviorPathPattern' :: "string option"
  downloadUrlDuration' :: "int option"
  cloudFrontKeyPairId' :: "string option"
  cloudFrontKeyPrivateKey' :: "string option"
  bucketName' :: "string option"
  cloudFrontDistribution' :: "Distribution option"
  s3Origin' :: "Origin option"
  baseUrl' :: "string option"
  cacheBehavior' :: "CacheBehavior option"

text \<open>An uploaded file as the host passes it.\<close>

record File =
  originalname :: "string option"
  path :: "string option"

section \<open>Collaborators and observable effects\<close>

datatype Body = ReadStream string | PassThrough

text \<open>
  The input of a put: \<open>Bucket\<close>, \<open>Key\<close>, \<open>Body\<close>, the spread upload options, and
  \<open>ACL\<close> written last.
\<close>

record PutObjectCommandInput = UploadOptions +
  Bucket :: "string option"
  Key :: string
  Body :: Body

text \<open>
  What the two SDK clients, the two URL signers, the clock and the runtime's RegExp engine
  answer. \<open>Inl\<close> is a thrown error (a rejected promise). A response that is falsy is
  \<open>None\<close>; a distribution response without its \<open>Distribution\<close> is \<open>Some None\<close>.
  \<open>RegExp_replace source s\<close> is the value of \<open>s.replace(new RegExp(`^${source}`), '')\<close>,
  or the SyntaxError the constructor throws.
\<close>

record env =
  cloudFront_GetDistribution :: "string \<Rightarrow> error + Distribution option option"
  cloudFront_CreateInvalidation :: "string \<Rightarrow> string list \<Rightarrow> error + unit"
  s3_PutObject :: "PutObjectCommandInput \<Rightarrow> error + unit option"
  s3_DeleteObject :: "string option \<Rightarrow> string \<Rightarrow> error + unit option"
  getS3SignedUrl :: "PutObjectCommandInput \<Rightarrow> int option \<Rightarrow> error + string"
  getCloudFrontSignedUrl :: "string \<Rightarrow> string option \<Rightarrow> int \<Rightarrow> string option \<Rightarrow> error + string"
  Date_now :: int
  RegExp_replace :: "string \<Rightarrow> string \<Rightarrow> error + string"

text \<open>The console messages, by kind, with the values interpolated into them.\<close>

datatype console =
    WarnDomainNameNotInAliases string
  | WarnNoAliases
  | WarnS3OriginPathNotFound string
  | ErrorCouldNotFindS3Origin
  | WarnBucketNameNotProvided
  | WarnBucketNameMismatch string string
  | WarnCacheBehaviorPathPatternNotFound string
  | WarnCacheBehaviorTargetOrigin string
  | WarnInvalidationFailed string

text \<open>
  Everything a call does besides returning, in the order it happens. An invalidation
  carries the distribution id and the batch's \<open>Items\<close> (its \<open>CallerReference\<close> is a
  time stamp and is left out).
\<close>

datatype event =
    Console console
  | GetDistributionCommand string
  | PutObjectCommand PutObjectCommandInput
  | DeleteObjectCommand "string option" string
  | CreateInvalidationCommand string "string list"
  | S3SignedUrl PutObjectCommandInput "int option"
  | CloudFrontSignedUrl string "string option" int "string option"

definition is_invalidation :: "event \<Rightarrow> bool" where
  "is_invalidation ev = (case ev of CreateInvalidationCommand d items \<Rightarrow> True | _ \<Rightarrow> False)"

section \<open>Configuration without a distribution\<close>

definition setDefaults :: "service \<Rightarrow> string option \<Rightarrow> string option \<Rightarrow> service" where
  "setDefaults this s3OriginPath domainName =
     (let this1 = this\<lparr>baseUrl' := Some (protocol' this @ ''://'' @ interpolate (bucketName' this)
                                          @ ''.s3.amazonaws.com''),
                        s3Origin' := None,
                        cacheBehavior' := None\<rparr>;
          this2 = (if truthy domainName
                   then this1\<lparr>baseUrl' := Some (protocol' this1 @ ''://'' @ interpolate domainName)\<rparr>
                   else this1)
      in if truthy s3OriginPath
         then this2\<lparr>s3Origin' := Some \<lparr>Id' = Some [],
                                        DomainName = Some (interpolate (bucketName' this2)
                                                           @ ''.s3.amazonaws.com''),
                                        OriginPath = s3OriginPath\<rparr>\<rparr>
         else this2)"

section \<open>Keys and URLs\<close>

text \<open>
  \<open>s.replace(new RegExp(`^${source}`), '')\<close>. The characters
  \<open>\ ^ $ . * + ? ( ) [ ] { } |\<close> are syntax in a pattern; every other character matches
  itself. For a source made of self-matching characters only, the anchored pattern matches
  exactly that literal prefix, which is removed. For a source that holds a syntax
  character the result is the engine's, whatever it is: the string without the matched
  prefix, the string unchanged, or the constructor's SyntaxError.
\<close>

definition regexp_syntax_chars :: "char list" where
  "regexp_syntax_chars =
     [CHR 0x5C, CHR ''^'', CHR ''$'', CHR ''.'', CHR ''*'', CHR ''+'', CHR ''?'',
      CHR ''('', CHR '')'', CHR ''['', CHR '']'', CHR ''{'', CHR ''}'', CHR ''|'']"

definition replace_anchored :: "env \<Rightarrow> string \<Rightarrow> string \<Rightarrow> error + string" where
  "replace_anchored env source s =
     (if list_ex (\<lambda>c. c \<in> set regexp_syntax_chars) source then RegExp_replace env source s
      else if prefix source s then Inr (drop (length source) s)
      else Inr s)"

definition getUrlFromKey :: "env \<Rightarrow> service \<Rightarrow> string \<Rightarrow> bool \<Rightarrow> error + string" where
  "getUrlFromKey env this key relative =
     (let relativePath = ''/'' @ key;
          stripped =
            (case cacheBehavior' this of
               None \<Rightarrow> Inr relativePath
             | Some cb \<Rightarrow>
                 (let originPath = (case s3Origin' this of
                                      None \<Rightarrow> []
                                    | Some origin \<Rightarrow>
                                        (case OriginPath origin of None \<Rightarrow> [] | Some p \<Rightarrow> p))
                  in if originPath = [] then Inr relativePath
                     else (case replace_anchored env originPath relativePath of
                             Inl e \<Rightarrow> Inl e
                           | Inr r \<Rightarrow> if PathPattern cb = Some ''*'' then Inr r
                                      else Inr relativePath)))
      in case stripped of
           Inl e \<Rightarrow> Inl e
         | Inr r \<Rightarrow> if relative then Inr r else Inr (interpolate (baseUrl' this) @ r))"

definition getKeyFromFile :: "service \<Rightarrow> File option \<Rightarrow> string" where
  "getKeyFromFile this file =
     (case file of
        None \<Rightarrow> []
      | Some f \<Rightarrow>
          (let key = (case s3Origin' this of
                        None \<Rightarrow> []
                      | Some origin \<Rightarrow>
                          if truthy (OriginPath origin)
                          then strip_leading_slash (interpolate (OriginPath origin)) @ ''/''
                          else [])
           in key @ interpolate (originalname f)))"

section \<open>Resolving the configuration from a distribution\<close>

definition getCloudFrontDistribution ::
  "env \<Rightarrow> string \<Rightarrow> (error + Distribution option) \<times> event list" where
  "getCloudFrontDistribution env distributionId =
     (case cloudFront_GetDistribution env distributionId of
        Inl e \<Rightarrow> (Inl e, [GetDistributionCommand distributionId])
      | Inr None \<Rightarrow>
          (Inl (Error ''Could not get CloudFront distribution''),
           [GetDistributionCommand distributionId])
      | Inr (Some response) \<Rightarrow> (Inr response, [GetDistributionCommand distributionId]))"

definition setBaseUrl :: "service \<Rightarrow> Distribution \<Rightarrow> string option \<Rightarrow> string \<times> event list" where
  "setBaseUrl this distribution domainName =
     (let baseUrl0 = interpolate (bucketName' this) @ ''.s3.amazonaws.com'';
          baseUrl = (if truthy (Distribution_DomainName distribution)
                     then interpolate (Distribution_DomainName distribution)
                     else baseUrl0);
          items = (case DistributionConfig distribution of
                     None \<Rightarrow> []
                   | Some distributionConfig \<Rightarrow>
                       (case Aliases distributionConfig of None \<Rightarrow> [] | Some xs \<Rightarrow> xs))
      in if truthy domainName
         then (if items \<noteq> []
               then (if interpolate domainName \<notin> set items
                     then (protocol' this @ ''://'' @ baseUrl,
                           [Console (WarnDomainNameNotInAliases (interpolate domainName))])
                     else (protocol' this @ ''://'' @ interpolate domainName, []))
               else (protocol' this @ ''://'' @ baseUrl, [Console WarnNoAliases]))
         else (protocol' this @ ''://'' @ baseUrl, []))"

text \<open>
  The filter reads \<open>o.DomainName.endsWith\<close> on every origin, so one origin without a
  domain name throws before anything is logged.
\<close>

definition setS3Origin ::
  "DistributionConfig \<Rightarrow> string option \<Rightarrow> (error + Origin option) \<times> event list" where
  "setS3Origin distributionConfig s3Origin =
     (let items = (case Origins distributionConfig of None \<Rightarrow> [] | Some xs \<Rightarrow> xs)
      in if list_ex (\<lambda>og. DomainName og = None) items then (Inl TypeError, [])
         else
          (let s3Origins = filter (\<lambda>og. suffix ''.s3.amazonaws.com'' (interpolate (DomainName og))) items;
               defaultCacheBehaviorOriginId =
                 (case DefaultCacheBehavior distributionConfig of
                    None \<Rightarrow> None
                  | Some d \<Rightarrow> Default_TargetOriginId d);
               origin0 = (case find (\<lambda>og. Id' og = defaultCacheBehaviorOriginId) s3Origins of
                            Some og \<Rightarrow> Some og
                          | None \<Rightarrow> (case s3Origins of [] \<Rightarrow> None | og # rest \<Rightarrow> Some og));
               notFound = [Console (WarnS3OriginPathNotFound (interpolate s3Origin))];
               chosen =
                 (if s3Origins \<noteq> []
                  then (if truthy s3Origin
                        then (case find (\<lambda>og. OriginPath og = s3Origin) s3Origins of
                                None \<Rightarrow> (if origin0 \<noteq> None then (origin0, notFound) else (None, []))
                              | Some foundOrigin \<Rightarrow> (Some foundOrigin, []))
                        else (origin0, []))
                  else (if truthy s3Origin \<and> origin0 \<noteq> None then (origin0, notFound)
                        else (origin0, [])))
           in (Inr (fst chosen),
               snd chosen @ (if fst chosen = None then [Console ErrorCouldNotFindS3Origin] else []))))"

text \<open>
  The first statement reads \<open>origin.DomainName.replace\<close> before the test of \<open>origin\<close>:
  without an origin it throws, and the bucket name is untouched.
\<close>

definition validateS3BucketName ::
  "service \<Rightarrow> Origin option \<Rightarrow> (error + unit) \<times> service \<times> event list" where
  "validateS3BucketName this origin =
     (case origin of
        None \<Rightarrow> (Inl TypeError, this, [])
      | Some og \<Rightarrow>
          (case DomainName og of
             None \<Rightarrow> (Inl TypeError, this, [])
           | Some dn \<Rightarrow>
               (let originBucketName = remove_first ''.s3.amazonaws.com'' dn
                in if \<not> truthy (bucketName' this)
                   then (Inr (), this\<lparr>bucketName' := Some originBucketName\<rparr>,
                         [Console WarnBucketNameNotProvided])
                   else if Some originBucketName \<noteq> bucketName' this
                   then (Inr (), this\<lparr>bucketName' := Some originBucketName\<rparr>,
                         [Console (WarnBucketNameMismatch originBucketName
                                     (interpolate (bucketName' this)))])
                   else (Inr (), this, []))))"

text \<open>The default the resolver falls back to, as the first lines of the method build it.\<close>

definition defaultCacheBehavior :: "service \<Rightarrow> DistributionConfig \<Rightarrow> CacheBehavior" where
  "defaultCacheBehavior this distributionConfig =
     (let d0 = \<lparr>PathPattern = Some ''*'',
                TargetOriginId = (case s3Origin' this of None \<Rightarrow> None | Some og \<Rightarrow> Id' og),
                ViewerProtocolPolicy = Some ''allow-all''\<rparr>
      in case DefaultCacheBehavior distributionConfig of
           None \<Rightarrow> d0
         | Some d \<Rightarrow> d0\<lparr>TargetOriginId := Default_TargetOriginId d,
                         ViewerProtocolPolicy := Default_ViewerProtocolPolicy d\<rparr>)"

text \<open>
  The cache behavior the method chooses first (the source's lines 216 to 230): the one
  found by the preferred path pattern, else the default, with the warning it logs.
\<close>

definition chosenCacheBehavior ::
  "service \<Rightarrow> DistributionConfig \<Rightarrow> string option \<Rightarrow> CacheBehavior \<times> event list" where
  "chosenCacheBehavior this distributionConfig cacheBehaviorPathPattern =
     (let notFound = [Console (WarnCacheBehaviorPathPatternNotFound
                                 (interpolate cacheBehaviorPathPattern))];
          dflt = defaultCacheBehavior this distributionConfig;
          items = (case CacheBehaviors distributionConfig of None \<Rightarrow> [] | Some xs \<Rightarrow> xs)
      in if items \<noteq> []
         then (if truthy cacheBehaviorPathPattern
               then (case find (\<lambda>c. PathPattern c = cacheBehaviorPathPattern) items of
                       None \<Rightarrow> (dflt, notFound)
                     | Some foundCacheBehavior \<Rightarrow> (foundCacheBehavior, []))
               else (dflt, []))
         else (if truthy cacheBehaviorPathPattern then (dflt, notFound) else (dflt, [])))"

text \<open>The whole method: the choice, then the check against the resolved storage origin.\<close>

definition setCacheBehaviorPathPattern ::
  "service \<Rightarrow> DistributionConfig \<Rightarrow> string option \<Rightarrow> CacheBehavior \<times> event list" where
  "setCacheBehaviorPathPattern this distributionConfig cacheBehaviorPathPattern =
     (let chosen = chosenCacheBehavior this distributionConfig cacheBehaviorPathPattern;
          s3OriginId = (case s3Origin' this of None \<Rightarrow> None | Some og \<Rightarrow> Id' og)
      in if TargetOriginId (fst chosen) \<noteq> s3OriginId
         then (let targetOrigin =
                     find (\<lambda>og. Id' og = TargetOriginId (fst chosen))
                       (case Origins distributionConfig of None \<Rightarrow> [] | Some xs \<Rightarrow> xs)
               in (defaultCacheBehavior this distributionConfig,
                   snd chosen @
                   [Console (WarnCacheBehaviorTargetOrigin
                               (interpolate (case targetOrigin of
                                               None \<Rightarrow> None
                                             | Some og \<Rightarrow> OriginPath og)))]))
         else chosen)"

text \<open>
  The body of the \<open>try\<close> block of \<open>initAwsGlobals\<close>: on a throw, the error with the
  fields as they stand at that point.
\<close>

definition initAwsGlobals_try ::
  "env \<Rightarrow> service \<Rightarrow> string option \<Rightarrow> string option \<Rightarrow> string option
   \<Rightarrow> (error + unit) \<times> service \<times> event list" where
  "initAwsGlobals_try env this domainName s3OriginPath cacheBehaviorPathPattern =
     (case getCloudFrontDistribution env (interpolate (cloudFrontDistributionId' this)) of
        (Inl e, ev0) \<Rightarrow> (Inl e, this, ev0)
      | (Inr fetched, ev0) \<Rightarrow>
          (let this1 = this\<lparr>cloudFrontDistribution' := fetched\<rparr>
           in case fetched of
                None \<Rightarrow> (Inl TypeError, this1, ev0)
              | Some distribution \<Rightarrow>
                  (case DistributionConfig distribution of
                     None \<Rightarrow> (Inl TypeError, this1, ev0)
                   | Some distributionConfig \<Rightarrow>
                       (case setS3Origin distributionConfig s3OriginPath of
                          (Inl e, ev1) \<Rightarrow> (Inl e, this1, ev0 @ ev1)
                        | (Inr origin, ev1) \<Rightarrow>
                            (case validateS3BucketName (this1\<lparr>s3Origin' := origin\<rparr>) origin of
                               (Inl e, this3, ev2) \<Rightarrow> (Inl e, this3, ev0 @ ev1 @ ev2)
                             | (Inr u, this3, ev2) \<Rightarrow>
                                 (let b = setBaseUrl this3 distribution domainName;
                                      this4 = this3\<lparr>baseUrl' := Some (fst b)\<rparr>;
                                      c = setCacheBehaviorPathPattern this4 distributionConfig
                                            cacheBehaviorPathPattern;
                                      this5 = this4\<lparr>cacheBehavior' := Some (fst c)\<rparr>
                                  in (Inr (), this5, ev0 @ ev1 @ ev2 @ snd b @ snd c)))))))"

definition initAwsGlobals ::
  "env \<Rightarrow> service \<Rightarrow> string option \<Rightarrow> string option \<Rightarrow> string option
   \<Rightarrow> (error + unit) \<times> service \<times> event list" where
  "initAwsGlobals env this domainName s3OriginPath cacheBehaviorPathPattern =
     (if \<not> truthy (cloudFrontDistributionId' this)
      then (Inr (), setDefaults this s3OriginPath domainName, [])
      else (case initAwsGlobals_try env this domainName s3OriginPath cacheBehaviorPathPattern of
              (Inl e, this1, evs) \<Rightarrow> (Inr (), setDefaults this1 s3OriginPath None, evs)
            | (Inr u, this1, evs) \<Rightarrow> (Inr (), this1, evs)))"

text \<open>The inverse direction, present in the S3-only variant of the service (\<open>s3.ts\<close>).\<close>

definition getKeyFromUrl :: "service \<Rightarrow> string \<Rightarrow> string" where
  "getKeyFromUrl this u =
     (let relativePath = remove_first (interpolate (baseUrl' this)) u;
          relativePath1 =
            (case cacheBehavior' this of
               None \<Rightarrow> relativePath
             | Some cb \<Rightarrow>
                 (let originPath = (case s3Origin' this of
                                      None \<Rightarrow> []
                                    | Some origin \<Rightarrow>
                                        (case OriginPath origin of None \<Rightarrow> [] | Some p \<Rightarrow> p))
                  in if PathPattern cb = Some ''*'' then originPath @ relativePath
                     else relativePath))
      in strip_leading_slash relativePath1)"

section \<open>Storage operations\<close>

definition getPutObjectCommandInput :: "service \<Rightarrow> File option \<Rightarrow> bool \<Rightarrow> PutObjectCommandInput" where
  "getPutObjectCommandInput this file isProtected =
     \<lparr>ACL = (if isProtected then Some ''private''
             else if truthy (ACL (uploadOptions' this)) then ACL (uploadOptions' this)
             else Some ''public-read''),
      CacheControl = CacheControl (uploadOptions' this),
      ServerSideEncryption = ServerSideEncryption (uploadOptions' this),
      StorageClass = StorageClass (uploadOptions' this),
      Bucket = bucketName' this,
      Key = getKeyFromFile this file,
      Body = (case file of
                None \<Rightarrow> PassThrough
              | Some f \<Rightarrow> if truthy (path f) then ReadStream (interpolate (path f)) else PassThrough)\<rparr>"

text \<open>
  \<open>encodeURI\<close> on a UTF-8 byte string: letters, digits and
  \<open>; / ? : @ & = + $ , - _ . ! ~ * ' ( ) #\<close> stay, every other byte becomes \<open>%XX\<close>.
\<close>

definition uri_unescaped :: "char \<Rightarrow> bool" where
  "uri_unescaped c =
     (let n = (of_char c :: nat)
      in (48 \<le> n \<and> n \<le> 57) \<or> (65 \<le> n \<and> n \<le> 90) \<or> (97 \<le> n \<and> n \<le> 122)
         \<or> c \<in> set (CHR 0x27 # '';/?:@&=+$,-_.!~*()#''))"

definition hex_digit :: "nat \<Rightarrow> char" where
  "hex_digit n = (if n < 10 then char_of (48 + n) else char_of (55 + n))"

definition encodeURI :: "string \<Rightarrow> string" where
  "encodeURI s =
     concat (map (\<lambda>c. if uri_unescaped c then [c]
                       else [CHR ''%'', hex_digit ((of_char c :: nat) div 16),
                             hex_digit ((of_char c :: nat) mod 16)]) s)"

definition invalidateFile :: "env \<Rightarrow> service \<Rightarrow> string \<Rightarrow> (error + unit) \<times> event list" where
  "invalidateFile env this pth =
     (if \<not> truthy (cloudFrontDistributionId' this) \<or> pth = [] then (Inr (), [])
      else (let distributionId = interpolate (cloudFrontDistributionId' this);
                items = [encodeURI pth]
            in case cloudFront_CreateInvalidation env distributionId items of
                 Inl e \<Rightarrow> (Inr (), [CreateInvalidationCommand distributionId items,
                                    Console (WarnInvalidationFailed pth)])
               | Inr u \<Rightarrow> (Inr (), [CreateInvalidationCommand distributionId items])))"

record FileServiceUploadResult =
  url :: string

definition uploadFile ::
  "env \<Rightarrow> service \<Rightarrow> File option \<Rightarrow> bool \<Rightarrow> (error + FileServiceUploadResult) \<times> event list" where
  "uploadFile env this file isProtected =
     (let params = getPutObjectCommandInput this file isProtected
      in case s3_PutObject env params of
           Inl e \<Rightarrow> (Inl e, [PutObjectCommand params])
         | Inr None \<Rightarrow> (Inl (Error ''File upload failed''), [PutObjectCommand params])
         | Inr (Some data) \<Rightarrow>
             (case getUrlFromKey env this (Key params) True of
                Inl e \<Rightarrow> (Inl e, [PutObjectCommand params])
              | Inr relativeUrl \<Rightarrow>
                  (case invalidateFile env this relativeUrl of
                     (Inl e, evs) \<Rightarrow> (Inl e, PutObjectCommand params # evs)
                   | (Inr u, evs) \<Rightarrow>
                       (case getUrlFromKey env this (Key params) False of
                          Inl e \<Rightarrow> (Inl e, PutObjectCommand params # evs)
                        | Inr absoluteUrl \<Rightarrow>
                            (Inr \<lparr>url = absoluteUrl\<rparr>, PutObjectCommand params # evs)))))"

definition removeFile :: "env \<Rightarrow> service \<Rightarrow> string \<Rightarrow> (error + unit) \<times> event list" where
  "removeFile env this k =
     (case s3_DeleteObject env (bucketName' this) k of
        Inl e \<Rightarrow> (Inl e, [DeleteObjectCommand (bucketName' this) k])
      | Inr None \<Rightarrow> (Inl (Error ''File deletion failed''), [DeleteObjectCommand (bucketName' this) k])
      | Inr (Some data) \<Rightarrow> (Inr (), [DeleteObjectCommand (bucketName' this) k]))"

text \<open>
  Every public method starts with \<open>initAwsGlobals\<close> on the preferences the service was
  built with, and goes on with the fields that call left.
\<close>

definition initAwsGlobals_own :: "env \<Rightarrow> service \<Rightarrow> (error + unit) \<times> service \<times> event list" where
  "initAwsGlobals_own env this =
     initAwsGlobals env this (domainName' this) (s3OriginPath' this) (cacheBehaviorPathPattern' this)"

definition upload ::
  "env \<Rightarrow> service \<Rightarrow> File option \<Rightarrow> (error + FileServiceUploadResult) \<times> service \<times> event list" where
  "upload env this file =
     (case initAwsGlobals_own env this of
        (Inl e, this1, evs) \<Rightarrow> (Inl e, this1, evs)
      | (Inr u, this1, evs) \<Rightarrow>
          (let r = uploadFile env this1 file False in (fst r, this1, evs @ snd r)))"

definition uploadProtected ::
  "env \<Rightarrow> service \<Rightarrow> File option \<Rightarrow> (error + FileServiceUploadResult) \<times> service \<times> event list" where
  "uploadProtected env this file =
     (case initAwsGlobals_own env this of
        (Inl e, this1, evs) \<Rightarrow> (Inl e, this1, evs)
      | (Inr u, this1, evs) \<Rightarrow>
          (let r = uploadFile env this1 file True in (fst r, this1, evs @ snd r)))"

record FileData =
  fileKey :: string

definition delete :: "env \<Rightarrow> service \<Rightarrow> FileData \<Rightarrow> (error + unit) \<times> service \<times> event list" where
  "delete env this file =
     (case initAwsGlobals_own env this of
        (Inl e, this1, evs) \<Rightarrow> (Inl e, this1, evs)
      | (Inr u, this1, evs) \<Rightarrow>
          (let r = removeFile env this1 (fileKey file) in (fst r, this1, evs @ snd r)))"

text \<open>\<open>s.split('/')\<close> and \<open>.at(-1)\<close>.\<close>

fun split_slash :: "string \<Rightarrow> string list" where
  "split_slash [] = [[]]"
| "split_slash (c # cs) =
     (if c = CHR ''/'' then [] # split_slash cs
      else (case split_slash cs of [] \<Rightarrow> [[c]] | seg # segs \<Rightarrow> (c # seg) # segs))"

definition at_last :: "'a list \<Rightarrow> 'a option" where
  "at_last xs = (case rev xs of [] \<Rightarrow> None | x # rest \<Rightarrow> Some x)"

text \<open>The command input \<open>getPresignedDownloadUrl\<close> builds from the file key it is given.\<close>

definition presignedParams :: "service \<Rightarrow> FileData \<Rightarrow> PutObjectCommandInput" where
  "presignedParams this fileData =
     (let fileName = at_last (split_slash (fileKey fileData));
          file = \<lparr>originalname = fileName, path = None\<rparr>
      in getPutObjectCommandInput this (Some file) False)"

text \<open>
  The expiry handed to the CloudFront signer is the instant \<open>now + duration * 1000\<close> in
  milliseconds. The source prints it with \<open>toISOString\<close>, which throws a RangeError on
  an invalid date: the one an undefined duration gives, and any instant further than
  8.64e15 milliseconds from the epoch.
\<close>

definition max_Date :: int where
  "max_Date = 8640000000000000"

definition getPresignedDownloadUrl ::
  "env \<Rightarrow> service \<Rightarrow> FileData \<Rightarrow> (error + string) \<times> service \<times> event list" where
  "getPresignedDownloadUrl env this fileData =
     (case initAwsGlobals_own env this of
        (Inl e, this1, evs) \<Rightarrow> (Inl e, this1, evs)
      | (Inr u, this1, evs) \<Rightarrow>
          (let params = presignedParams this1 fileData
           in if \<not> truthy (cloudFrontDistributionId' this1)
              then (getS3SignedUrl env params (downloadUrlDuration' this1), this1,
                    evs @ [S3SignedUrl params (downloadUrlDuration' this1)])
              else (case getUrlFromKey env this1 (Key params) False of
                      Inl e \<Rightarrow> (Inl e, this1, evs)
                    | Inr absoluteUrl \<Rightarrow>
                        (case downloadUrlDuration' this1 of
                           None \<Rightarrow> (Inl RangeError, this1, evs)
                         | Some d \<Rightarrow>
                             (let expires = Date_now env + d * 1000
                              in if \<bar>expires\<bar> > max_Date then (Inl RangeError, this1, evs)
                                 else
                                  (getCloudFrontSignedUrl env absoluteUrl (cloudFrontKeyPairId' this1)
                                     expires (cloudFrontKeyPrivateKey' this1),
                                   this1,
                                   evs @ [CloudFrontSignedUrl absoluteUrl (cloudFrontKeyPairId' this1)
                                            expires (cloudFrontKeyPrivateKey' this1)]))))))"

section \<open>Notions the statements use\<close>

text \<open>The resolved configuration: the three fields \<open>initAwsGlobals\<close> assigns.\<close>

definition ResolvedConfig :: "service \<Rightarrow> string option \<times> Origin option \<times> CacheBehavior option" where
  "ResolvedConfig this = (baseUrl' this, s3Origin' this, cacheBehavior' this)"

text \<open>\<open>this.s3Origin_?.Id\<close>.\<close>

definition s3OriginId :: "service \<Rightarrow> string option" where
  "s3OriginId this = (case s3Origin' this of None \<Rightarrow> None | Some og \<Rightarrow> Id' og)"

text \<open>
  The prefix \<open>getKeyFromFile\<close> puts before a file name: the resolved origin path without
  its leading slash and with a slash after it, or nothing without an origin path.
\<close>

definition origin_path_prefix :: "service \<Rightarrow> string" where
  "origin_path_prefix this =
     (case s3Origin' this of
        None \<Rightarrow> []
      | Some origin \<Rightarrow>
          if truthy (OriginPath origin)
          then strip_leading_slash (interpolate (OriginPath origin)) @ ''/''
          else [])"

section \<open>An example deployment\<close>

text \<open>
  Bucket \<open>b\<close> over https with origin path \<open>/assets\<close>; a distribution \<open>E1\<close> with a web
  origin and the bucket as its S3 origin, one alias, a cache behavior for \<open>images/*\<close>
  that targets the S3 origin and one for \<open>api/*\<close> that targets the web origin. The
  default cache behavior targets the origin given as the argument.
\<close>

definition example_service :: service where
  "example_service =
     \<lparr>protocol' = ''https'', cloudFrontDistributionId' = None,
      uploadOptions' = \<lparr>ACL = None, CacheControl = None, ServerSideEncryption = None,
                        StorageClass = None\<rparr>,
      domainName' = None, s3OriginPath' = Some ''/assets'', cacheBehaviorPathPattern' = None,
      downloadUrlDuration' = Some 3600, cloudFrontKeyPairId' = None,
      cloudFrontKeyPrivateKey' = None, bucketName' = Some ''b'',
      cloudFrontDistribution' = None, s3Origin' = None, baseUrl' = None, cacheBehavior' = None\<rparr>"

definition example_cdn_service :: service where
  "example_cdn_service = example_service\<lparr>cloudFrontDistributionId' := Some ''E1''\<rparr>"

definition example_distribution :: "string \<Rightarrow> Distribution" where
  "example_distribution defaultTarget =
     \<lparr>Distribution_DomainName = Some ''d1.cloudfront.net'',
      DistributionConfig = Some
        \<lparr>Aliases = Some [''media.example.com''],
         Origins = Some [\<lparr>Id' = Some ''web'', DomainName = Some ''www.example.com'',
                          OriginPath = Some []\<rparr>,
                         \<lparr>Id' = Some ''s3'', DomainName = Some ''b.s3.amazonaws.com'',
                          OriginPath = Some ''/assets''\<rparr>],
         DefaultCacheBehavior = Some \<lparr>Default_TargetOriginId = Some defaultTarget,
                                       Default_ViewerProtocolPolicy = Some ''allow-all''\<rparr>,
         CacheBehaviors = Some [\<lparr>PathPattern = Some ''images/*'', TargetOriginId = Some ''s3'',
                                 ViewerProtocolPolicy = Some ''redirect-to-https''\<rparr>,
                                \<lparr>PathPattern = Some ''api/*'', TargetOriginId = Some ''web'',
                                 ViewerProtocolPolicy = Some ''https-only''\<rparr>]\<rparr>\<rparr>"

text \<open>
  Collaborators that answer every request the same way: the distribution fetch with
  \<open>fetched\<close>, an invalidation with \<open>invalidated\<close>, a put or a delete with \<open>stored\<close>.
  Its RegExp engine removes a prefix equal to the source, which is what the runtime's
  does with the source \<open>/v1.0\<close> on a path that starts with \<open>/v1.0\<close>.
\<close>

definition example_env ::
  "(error + Distribution option option) \<Rightarrow> (error + unit) \<Rightarrow> (error + unit option) \<Rightarrow> env" where
  "example_env fetched invalidated stored =
     \<lparr>cloudFront_GetDistribution = (\<lambda>distributionId. fetched),
      cloudFront_CreateInvalidation = (\<lambda>distributionId items. invalidated),
      s3_PutObject = (\<lambda>params. stored),
      s3_DeleteObject = (\<lambda>bucket k. stored),
      getS3SignedUrl = (\<lambda>params expiresIn. Inr (''signed:'' @ Key params)),
      getCloudFrontSignedUrl = (\<lambda>u keyPairId expires privateKey. Inr (''signed:'' @ u)),
      Date_now = 0,
      RegExp_replace = (\<lambda>source s. if prefix source s then Inr (drop (length source) s)
                                      else Inr s)\<rparr>"

text \<open>The distribution is fetched, writes succeed, every invalidation request throws.\<close>

definition example_cdn_env :: "string \<Rightarrow> env" where
  "example_cdn_env defaultTarget =
     example_env (Inr (Some (Some (example_distribution defaultTarget))))
       (Inl (Rejected ''Throttling'')) (Inr (Some ()))"

text \<open>The distribution cannot be fetched; the object store reports no result.\<close>

definition example_outage_env :: env where
  "example_outage_env = example_env (Inl (Rejected ''ServiceUnavailable'')) (Inr ()) (Inr None)"

text \<open>The fields after the first public call against the distribution whose default targets S3.\<close>

definition example_resolved :: service where
  "example_resolved = fst (snd (initAwsGlobals_own (example_cdn_env ''s3'') example_cdn_service))"

text \<open>
  The same fields with the origin path \<open>/v1.0\<close>, as a distribution whose S3 origin has
  that path leaves them.
\<close>

definition example_versioned :: service where
  "example_versioned =
     example_resolved\<lparr>s3Origin' := Some \<lparr>Id' = Some ''s3'',
                                            DomainName = Some ''b.s3.amazonaws.com'',
                                            OriginPath = Some ''/v1.0''\<rparr>\<rparr>"

section \<open>Evaluation and auxiliary facts\<close>

lemmas model_defs =
  truthy_def interpolate_def strip_leading_slash_def replace_anchored_def regexp_syntax_chars_def
  setDefaults_def getUrlFromKey_def getKeyFromFile_def getKeyFromUrl_def
  getCloudFrontDistribution_def setBaseUrl_def setS3Origin_def validateS3BucketName_def
  defaultCacheBehavior_def chosenCacheBehavior_def setCacheBehaviorPathPattern_def
  initAwsGlobals_try_def max_Date_def
  initAwsGlobals_def initAwsGlobals_own_def getPutObjectCommandInput_def invalidateFile_def uploadFile_def
  removeFile_def upload_def uploadProtected_def delete_def presignedParams_def
  getPresignedDownloadUrl_def at_last_def is_invalidation_def encodeURI_def uri_unescaped_def
  hex_digit_def ResolvedConfig_def s3OriginId_def origin_path_prefix_def
  example_service_def example_cdn_service_def example_distribution_def example_env_def
  example_cdn_env_def example_outage_env_def example_resolved_def
  suffix_to_prefix Let_def

lemma example_resolved_fields:
  "cacheBehavior' example_resolved =
     Some \<lparr>PathPattern = Some ''*'', TargetOriginId = Some ''s3'',
           ViewerProtocolPolicy = Some ''allow-all''\<rparr>"
  "s3Origin' example_resolved =
     Some \<lparr>Id' = Some ''s3'', DomainName = Some ''b.s3.amazonaws.com'',
           OriginPath = Some ''/assets''\<rparr>"
  "baseUrl' example_resolved = Some ''https://d1.cloudfront.net''"
  "cloudFrontDistributionId' example_resolved = Some ''E1''"
  "bucketName' example_resolved = Some ''b''"
  "uploadOptions' example_resolved =
     \<lparr>ACL = None, CacheControl = None, ServerSideEncryption = None, StorageClass = None\<rparr>"
  "downloadUrlDuration' example_resolved = Some 3600"
  "cloudFrontKeyPairId' example_resolved = None"
  "cloudFrontKeyPrivateKey' example_resolved = None"
  by (simp_all add: model_defs)

subsection \<open>Strings\<close>

lemma replace_anchored_assets:
  "replace_anchored env ''/assets'' (''/assets/'' @ n) = Inr (''/'' @ n)"
  by (simp add: replace_anchored_def regexp_syntax_chars_def)

lemma remove_first_prefix: "remove_first p (p @ s) = s"
proof (cases "p @ s")
  case Nil
  then show ?thesis by simp
next
  case (Cons c cs)
  have pre: "prefix p (c # cs)" unfolding Cons[symmetric] by simp
  have dr: "drop (length p) (c # cs) = s" unfolding Cons[symmetric] by simp
  show ?thesis unfolding Cons using pre dr by simp
qed

lemma split_slash_nonempty: "split_slash s \<noteq> []"
  by (induction s) (auto split: list.splits)

lemma split_slash_append: "split_slash (a @ CHR ''/'' # b) = split_slash a @ split_slash b"
proof (induction a)
  case Nil
  then show ?case by simp
next
  case (Cons c a)
  then show ?case using split_slash_nonempty[of a] by (cases "split_slash a") auto
qed

lemma split_slash_no_slash: "CHR ''/'' \<notin> set seg \<Longrightarrow> split_slash seg = [seg]"
  by (induction seg) auto

lemma split_slash_segments: "seg \<in> set (split_slash s) \<Longrightarrow> CHR ''/'' \<notin> set seg"
proof (induction s arbitrary: seg)
  case Nil
  then show ?case by simp
next
  case (Cons c s)
  then show ?case using split_slash_nonempty[of s]
    by (cases "split_slash s") (auto split: if_splits)
qed

lemma at_last_snoc: "at_last (xs @ [x]) = Some x"
  by (simp add: at_last_def)

lemma at_last_Some: "xs \<noteq> [] \<Longrightarrow> \<exists>x. at_last xs = Some x \<and> x \<in> set xs"
  by (cases xs rule: rev_cases) (auto simp: at_last_def)

lemma last_segment: "\<exists>seg. at_last (split_slash s) = Some seg \<and> CHR ''/'' \<notin> set seg"
  using at_last_Some[OF split_slash_nonempty[of s]] split_slash_segments by blast

lemma last_segment_after_prefix:
  assumes "P = [] \<or> (\<exists>q. P = q @ ''/'')" and "CHR ''/'' \<notin> set seg"
  shows "at_last (split_slash (P @ seg)) = Some seg"
proof (cases "P = []")
  case True
  then show ?thesis using assms(2) by (simp add: split_slash_no_slash at_last_def)
next
  case False
  then obtain q where q: "P = q @ ''/''" using assms(1) by blast
  have "split_slash (P @ seg) = split_slash q @ [seg]"
    unfolding q using split_slash_append[of q seg] assms(2) by (simp add: split_slash_no_slash)
  then show ?thesis by (simp add: at_last_snoc)
qed

subsection \<open>Keys and URLs\<close>

lemma origin_path_prefix_shape:
  "origin_path_prefix this = [] \<or> (\<exists>q. origin_path_prefix this = q @ ''/'')"
  by (auto simp: origin_path_prefix_def split: option.splits)

lemma getKeyFromFile_prefix:
  "getKeyFromFile this (Some f) = origin_path_prefix this @ interpolate (originalname f)"
  by (simp add: getKeyFromFile_def origin_path_prefix_def split: option.splits)

lemma presigned_key:
  "Key (presignedParams this fd) =
     origin_path_prefix this @ interpolate (at_last (split_slash (fileKey fd)))"
  by (simp add: presignedParams_def getPutObjectCommandInput_def getKeyFromFile_prefix Let_def)

lemma getUrlFromKey_absolute:
  "getUrlFromKey env this k True = Inr p \<Longrightarrow>
     getUrlFromKey env this k False = Inr (interpolate (baseUrl' this) @ p)"
  by (auto simp: getUrlFromKey_def Let_def split: option.splits sum.splits if_splits)

subsection \<open>Effects\<close>

lemma is_invalidation_simps [simp]:
  "is_invalidation (Console c) = False"
  "is_invalidation (GetDistributionCommand d) = False"
  "is_invalidation (PutObjectCommand params) = False"
  "is_invalidation (DeleteObjectCommand b k) = False"
  "is_invalidation (CreateInvalidationCommand d items) = True"
  by (simp_all add: is_invalidation_def)

lemma invalidateFile_skips:
  "\<not> truthy (cloudFrontDistributionId' this) \<or> pth = [] \<Longrightarrow>
     invalidateFile env this pth = (Inr (), [])"
  by (auto simp: invalidateFile_def)

lemma setDefaults_distributionId [simp]:
  "cloudFrontDistributionId' (setDefaults this a b) = cloudFrontDistributionId' this"
  by (simp add: setDefaults_def Let_def)

lemma setDefaults_cacheBehavior [simp]: "cacheBehavior' (setDefaults this a b) = None"
  by (simp add: setDefaults_def Let_def)

lemma uploadFile_first_event:
  "\<exists>rest. snd (uploadFile env this file isProtected)
      = PutObjectCommand (getPutObjectCommandInput this file isProtected) # rest"
  by (auto simp: uploadFile_def Let_def split: sum.splits option.splits prod.splits)

lemma uploadFile_no_cdn:
  assumes "\<not> truthy (cloudFrontDistributionId' this)"
  shows "snd (uploadFile env this file isProtected)
           = [PutObjectCommand (getPutObjectCommandInput this file isProtected)]"
  by (simp add: uploadFile_def Let_def invalidateFile_skips[OF disjI1[OF assms]]
      split: sum.splits option.splits)

lemma init_no_cdn:
  "\<not> truthy (cloudFrontDistributionId' this) \<Longrightarrow>
     initAwsGlobals_own env this = (Inr (), setDefaults this (s3OriginPath' this) (domainName' this), [])"
  by (simp add: initAwsGlobals_own_def initAwsGlobals_def)

lemma getCloudFrontDistribution_events:
  "snd (getCloudFrontDistribution env d) = [GetDistributionCommand d]"
  by (simp add: getCloudFrontDistribution_def split: sum.splits option.splits)

lemma setS3Origin_events: "\<not> list_ex is_invalidation (snd (setS3Origin dc s3Origin))"
  by (simp add: setS3Origin_def Let_def split: option.splits)

lemma validateS3BucketName_events:
  "\<not> list_ex is_invalidation (snd (snd (validateS3BucketName this origin)))"
  by (simp add: validateS3BucketName_def Let_def split: option.splits)

lemma setBaseUrl_events: "\<not> list_ex is_invalidation (snd (setBaseUrl this distribution dn))"
  by (simp add: setBaseUrl_def Let_def)

lemma chosenCacheBehavior_events:
  "\<not> list_ex is_invalidation (snd (chosenCacheBehavior this dc pat))"
  by (simp add: chosenCacheBehavior_def Let_def split: option.splits)

lemma setCacheBehaviorPathPattern_events:
  "\<not> list_ex is_invalidation (snd (setCacheBehaviorPathPattern this dc pat))"
  using chosenCacheBehavior_events[of this dc pat]
  by (simp add: setCacheBehaviorPathPattern_def Let_def)

lemma initAwsGlobals_try_events:
  "\<not> list_ex is_invalidation (snd (snd (initAwsGlobals_try env this dn op pat)))"
proof -
  let ?d = "interpolate (cloudFrontDistributionId' this)"
  obtain r0 ev0 where f: "getCloudFrontDistribution env ?d = (r0, ev0)" by (cases "getCloudFrontDistribution env ?d")
  have ev0: "ev0 = [GetDistributionCommand ?d]"
    using getCloudFrontDistribution_events[of env ?d] f by simp
  show ?thesis
  proof (cases r0)
    case (Inl e)
    then show ?thesis using f ev0 by (simp add: initAwsGlobals_try_def)
  next
    case (Inr fetched)
    show ?thesis
    proof (cases fetched)
      case None
      then show ?thesis using f ev0 Inr by (simp add: initAwsGlobals_try_def)
    next
      case (Some dist)
      show ?thesis
      proof (cases "DistributionConfig dist")
        case None
        then show ?thesis using f ev0 Inr Some by (simp add: initAwsGlobals_try_def)
      next
        case dc: (Some dc)
        obtain r1 ev1 where o: "setS3Origin dc op = (r1, ev1)" by (cases "setS3Origin dc op")
        have ev1: "\<not> list_ex is_invalidation ev1" using setS3Origin_events[of dc op] o by simp
        show ?thesis
        proof (cases r1)
          case (Inl e)
          then show ?thesis using f ev0 Inr Some dc o ev1 by (simp add: initAwsGlobals_try_def)
        next
          case origin: (Inr origin)
          let ?this2 = "this\<lparr>cloudFrontDistribution' := Some dist, s3Origin' := origin\<rparr>"
          obtain r2 this3 ev2 where v: "validateS3BucketName ?this2 origin = (r2, this3, ev2)"
            by (cases "validateS3BucketName ?this2 origin")
          have ev2: "\<not> list_ex is_invalidation ev2"
            using validateS3BucketName_events[of ?this2 origin] v by simp
          show ?thesis
            using f ev0 Inr Some dc o ev1 origin v ev2 setBaseUrl_events
              setCacheBehaviorPathPattern_events
            by (cases r2) (simp_all add: initAwsGlobals_try_def Let_def)
        qed
      qed
    qed
  qed
qed

lemma initAwsGlobals_events:
  "\<not> list_ex is_invalidation (snd (snd (initAwsGlobals env this dn op pat)))"
  using initAwsGlobals_try_events[of env this dn op pat]
  by (auto simp: initAwsGlobals_def split: prod.splits sum.splits)

lemma initAwsGlobals_returns: "fst (initAwsGlobals env this dn op pat) = Inr ()"
  by (simp add: initAwsGlobals_def split: prod.splits sum.splits)

lemma init_returns: "fst (initAwsGlobals_own env this) = Inr ()"
  by (simp add: initAwsGlobals_own_def initAwsGlobals_returns)

lemma init_events: "\<not> list_ex is_invalidation (snd (snd (initAwsGlobals_own env this)))"
  by (simp add: initAwsGlobals_own_def initAwsGlobals_events)

lemma removeFile_events: "\<not> list_ex is_invalidation (snd (removeFile env this k))"
  by (simp add: removeFile_def split: sum.splits option.splits)

subsection \<open>The resolver\<close>

lemma setCacheBehaviorPathPattern_check:
  "fst (setCacheBehaviorPathPattern this dc pat) =
     (if TargetOriginId (fst (chosenCacheBehavior this dc pat)) = s3OriginId this
      then fst (chosenCacheBehavior this dc pat)
      else defaultCacheBehavior this dc)"
  by (simp add: setCacheBehaviorPathPattern_def s3OriginId_def Let_def)

lemma setCacheBehaviorPathPattern_result:
  "TargetOriginId (fst (setCacheBehaviorPathPattern this dc pat)) = s3OriginId this
   \<or> fst (setCacheBehaviorPathPattern this dc pat) = defaultCacheBehavior this dc"
  by (simp add: setCacheBehaviorPathPattern_check)

lemma chosenCacheBehavior_find:
  "fst (chosenCacheBehavior this dc pat) =
     (case (if truthy pat
            then find (\<lambda>c. PathPattern c = pat)
                   (case CacheBehaviors dc of None \<Rightarrow> [] | Some xs \<Rightarrow> xs)
            else None) of
        None \<Rightarrow> defaultCacheBehavior this dc
      | Some foundCacheBehavior \<Rightarrow> foundCacheBehavior)"
  by (simp add: chosenCacheBehavior_def Let_def split: option.splits)

lemma defaultCacheBehavior_cong:
  "s3Origin' a = s3Origin' b \<Longrightarrow> defaultCacheBehavior a dc = defaultCacheBehavior b dc"
  by (simp add: defaultCacheBehavior_def)

lemma chosenCacheBehavior_cong:
  "s3Origin' a = s3Origin' b \<Longrightarrow> chosenCacheBehavior a dc pat = chosenCacheBehavior b dc pat"
  by (simp add: chosenCacheBehavior_def defaultCacheBehavior_cong[of a b])

lemma defaultCacheBehavior_None:
  "DefaultCacheBehavior dc = None \<Longrightarrow> TargetOriginId (defaultCacheBehavior this dc) = s3OriginId this"
  by (simp add: defaultCacheBehavior_def s3OriginId_def)

lemma defaultCacheBehavior_Some:
  "DefaultCacheBehavior dc = Some d \<Longrightarrow>
     defaultCacheBehavior this dc =
       \<lparr>PathPattern = Some ''*'', TargetOriginId = Default_TargetOriginId d,
        ViewerProtocolPolicy = Default_ViewerProtocolPolicy d\<rparr>"
  by (simp add: defaultCacheBehavior_def)

lemma validateS3BucketName_frame:
  "validateS3BucketName this origin = (r, this3, ev) \<Longrightarrow>
     s3Origin' this3 = s3Origin' this \<and> cloudFrontDistribution' this3 = cloudFrontDistribution' this
     \<and> cloudFrontDistributionId' this3 = cloudFrontDistributionId' this"
  by (auto simp: validateS3BucketName_def Let_def split: option.splits if_splits)

lemma initAwsGlobals_try_success:
  assumes "initAwsGlobals_try env this dn op pat = (Inr u, this1, evs)"
  shows "\<exists>dist dc this4. cloudFrontDistribution' this1 = Some dist \<and> DistributionConfig dist = Some dc
           \<and> s3Origin' this4 = s3Origin' this1
           \<and> cacheBehavior' this1 = Some (fst (setCacheBehaviorPathPattern this4 dc pat))"
proof -
  obtain fetched ev0 where f:
    "getCloudFrontDistribution env (interpolate (cloudFrontDistributionId' this)) = (Inr fetched, ev0)"
    using assms by (auto simp: initAwsGlobals_try_def split: prod.splits sum.splits)
  obtain dist where d: "fetched = Some dist"
    using assms f by (auto simp: initAwsGlobals_try_def Let_def split: option.splits)
  obtain dc where dc: "DistributionConfig dist = Some dc"
    using assms f d by (auto simp: initAwsGlobals_try_def Let_def split: option.splits)
  obtain origin ev1 where o: "setS3Origin dc op = (Inr origin, ev1)"
    using assms f d dc by (auto simp: initAwsGlobals_try_def Let_def split: prod.splits sum.splits)
  let ?this2 = "this\<lparr>cloudFrontDistribution' := Some dist, s3Origin' := origin\<rparr>"
  obtain u3 this3 ev2 where v: "validateS3BucketName ?this2 origin = (Inr u3, this3, ev2)"
    using assms f d dc o by (auto simp: initAwsGlobals_try_def Let_def split: prod.splits sum.splits)
  let ?this4 = "this3\<lparr>baseUrl' := Some (fst (setBaseUrl this3 dist dn))\<rparr>"
  have fin: "this1 = ?this4\<lparr>cacheBehavior' := Some (fst (setCacheBehaviorPathPattern ?this4 dc pat))\<rparr>"
    using assms f d dc o v by (simp add: initAwsGlobals_try_def Let_def)
  have fr: "s3Origin' this3 = origin" "cloudFrontDistribution' this3 = Some dist"
    using validateS3BucketName_frame[OF v] by simp_all
  show ?thesis
    by (rule exI[of _ dist], rule exI[of _ dc], rule exI[of _ ?this4]) (simp add: fin fr dc)
qed

lemma initAwsGlobals_fetch_failure:
  assumes "truthy (cloudFrontDistributionId' this)"
      and "fst (getCloudFrontDistribution env (interpolate (cloudFrontDistributionId' this))) = Inl e"
  shows "initAwsGlobals env this dn op pat =
           (Inr (), setDefaults this op None,
            [GetDistributionCommand (interpolate (cloudFrontDistributionId' this))])"
proof -
  let ?d = "interpolate (cloudFrontDistributionId' this)"
  have "getCloudFrontDistribution env ?d = (Inl e, [GetDistributionCommand ?d])"
    using assms(2) getCloudFrontDistribution_events[of env ?d]
    by (cases "getCloudFrontDistribution env ?d") simp
  then show ?thesis using assms(1) by (simp add: initAwsGlobals_def initAwsGlobals_try_def)
qed

section \<open>Properties of the service\<close>

text \<open>
  C1 (amended). For every distribution and every preference triple, \<open>initAwsGlobals\<close>
  never throws. In the configuration it leaves, whenever a cache behavior and a storage
  origin are both resolved, the cache behavior is the one chosen first (found by the
  preferred path pattern, else the default) when that one targets the storage origin, and
  is the default cache behavior when the one chosen first targets another origin. The
  default is built from the distribution's \<open>DefaultCacheBehavior\<close> (path pattern \<open>*\<close>, with
  its target origin id and viewer protocol policy) and targets the storage origin when
  the distribution has none. So either the cache behavior's \<open>TargetOriginId\<close> is the
  storage origin's \<open>Id\<close>, or the cache behavior is that default.
\<close>

theorem resolver_cache_behavior_target:
  assumes "initAwsGlobals env this dn op pat = (r, this1, evs)"
  shows "r = Inr ()
    \<and> (\<forall>cb og. cacheBehavior' this1 = Some cb \<and> s3Origin' this1 = Some og \<longrightarrow>
          (\<exists>dist dc. cloudFrontDistribution' this1 = Some dist \<and> DistributionConfig dist = Some dc
             \<and> cb = (if TargetOriginId (fst (chosenCacheBehavior this1 dc pat)) = Id' og
                     then fst (chosenCacheBehavior this1 dc pat)
                     else defaultCacheBehavior this1 dc))
          \<and> (TargetOriginId cb = Id' og
             \<or> (\<exists>dist dc d. cloudFrontDistribution' this1 = Some dist
                   \<and> DistributionConfig dist = Some dc \<and> DefaultCacheBehavior dc = Some d
                   \<and> cb = \<lparr>PathPattern = Some ''*'', TargetOriginId = Default_TargetOriginId d,
                            ViewerProtocolPolicy = Default_ViewerProtocolPolicy d\<rparr>)))
    \<and> (\<forall>s dc p. fst (setCacheBehaviorPathPattern s dc p) =
                   (if TargetOriginId (fst (chosenCacheBehavior s dc p)) = s3OriginId s
                    then fst (chosenCacheBehavior s dc p)
                    else defaultCacheBehavior s dc))
    \<and> (\<forall>s dc p. fst (chosenCacheBehavior s dc p) =
                   (case (if truthy p
                          then find (\<lambda>c. PathPattern c = p)
                                 (case CacheBehaviors dc of None \<Rightarrow> [] | Some xs \<Rightarrow> xs)
                          else None) of
                      None \<Rightarrow> defaultCacheBehavior s dc
                    | Some foundCacheBehavior \<Rightarrow> foundCacheBehavior))
    \<and> (\<forall>s dc d. DefaultCacheBehavior dc = Some d \<longrightarrow>
                   defaultCacheBehavior s dc =
                     \<lparr>PathPattern = Some ''*'', TargetOriginId = Default_TargetOriginId d,
                      ViewerProtocolPolicy = Default_ViewerProtocolPolicy d\<rparr>)
    \<and> (\<forall>s dc. DefaultCacheBehavior dc = None \<longrightarrow>
                 defaultCacheBehavior s dc =
                   \<lparr>PathPattern = Some ''*'', TargetOriginId = s3OriginId s,
                    ViewerProtocolPolicy = Some ''allow-all''\<rparr>)"
proof -
  have r: "r = Inr ()" using initAwsGlobals_returns[of env this dn op pat] assms by simp
  have inv: "(\<exists>dist dc. cloudFrontDistribution' this1 = Some dist \<and> DistributionConfig dist = Some dc
             \<and> cb = (if TargetOriginId (fst (chosenCacheBehavior this1 dc pat)) = Id' og
                     then fst (chosenCacheBehavior this1 dc pat)
                     else defaultCacheBehavior this1 dc))
          \<and> (TargetOriginId cb = Id' og
             \<or> (\<exists>dist dc d. cloudFrontDistribution' this1 = Some dist
                   \<and> DistributionConfig dist = Some dc \<and> DefaultCacheBehavior dc = Some d
                   \<and> cb = \<lparr>PathPattern = Some ''*'', TargetOriginId = Default_TargetOriginId d,
                            ViewerProtocolPolicy = Default_ViewerProtocolPolicy d\<rparr>))"
    if cb: "cacheBehavior' this1 = Some cb" and og: "s3Origin' this1 = Some og" for cb og
  proof -
    have cdn: "truthy (cloudFrontDistributionId' this)"
      using assms cb by (auto simp: initAwsGlobals_def split: if_splits)
    obtain u where t: "initAwsGlobals_try env this dn op pat = (Inr u, this1, evs)"
      using assms cb cdn by (auto simp: initAwsGlobals_def split: prod.splits sum.splits)
    obtain dist dc this4 where s:
      "cloudFrontDistribution' this1 = Some dist" "DistributionConfig dist = Some dc"
      "s3Origin' this4 = s3Origin' this1"
      "cacheBehavior' this1 = Some (fst (setCacheBehaviorPathPattern this4 dc pat))"
      using initAwsGlobals_try_success[OF t] by blast
    have id: "s3OriginId this4 = Id' og" using s(3) og by (simp add: s3OriginId_def)
    have exact: "cb = (if TargetOriginId (fst (chosenCacheBehavior this1 dc pat)) = Id' og
                       then fst (chosenCacheBehavior this1 dc pat)
                       else defaultCacheBehavior this1 dc)"
      using s(4) cb id setCacheBehaviorPathPattern_check[of this4 dc pat]
        chosenCacheBehavior_cong[OF s(3), of dc pat] defaultCacheBehavior_cong[OF s(3), of dc]
      by simp
    have shape: "TargetOriginId cb = Id' og
             \<or> (\<exists>dist dc d. cloudFrontDistribution' this1 = Some dist
                   \<and> DistributionConfig dist = Some dc \<and> DefaultCacheBehavior dc = Some d
                   \<and> cb = \<lparr>PathPattern = Some ''*'', TargetOriginId = Default_TargetOriginId d,
                            ViewerProtocolPolicy = Default_ViewerProtocolPolicy d\<rparr>)"
    proof (cases "TargetOriginId cb = Id' og")
      case True
      then show ?thesis by simp
    next
      case False
      then have dflt: "cb = defaultCacheBehavior this1 dc"
        using exact by (simp split: if_splits)
      have id1: "s3OriginId this1 = Id' og" using og by (simp add: s3OriginId_def)
      obtain d where d: "DefaultCacheBehavior dc = Some d"
        using defaultCacheBehavior_None[of dc this1] False id1 dflt
        by (cases "DefaultCacheBehavior dc") auto
      show ?thesis using s(1,2) d dflt defaultCacheBehavior_Some[OF d, of this1] by auto
    qed
    show ?thesis using s(1,2) exact shape by blast
  qed
  have dn: "defaultCacheBehavior s dc =
      \<lparr>PathPattern = Some ''*'', TargetOriginId = s3OriginId s,
       ViewerProtocolPolicy = Some ''allow-all''\<rparr>"
    if "DefaultCacheBehavior dc = None" for s dc
    using that by (simp add: defaultCacheBehavior_def s3OriginId_def)
  show ?thesis
    using r inv setCacheBehaviorPathPattern_check chosenCacheBehavior_find
      defaultCacheBehavior_Some dn
    by blast
qed

theorem resolver_cache_behavior_target_witness:
  "fst (initAwsGlobals (example_cdn_env ''s3'') example_cdn_service None (Some ''/assets'')
          (Some ''api/*'')) = Inr ()
   \<and> s3OriginId (fst (snd (initAwsGlobals (example_cdn_env ''s3'') example_cdn_service None
                             (Some ''/assets'') (Some ''api/*'')))) = Some ''s3''
   \<and> (\<exists>dc. DistributionConfig (example_distribution ''s3'') = Some dc
         \<and> fst (chosenCacheBehavior example_cdn_service dc (Some ''api/*''))
             = \<lparr>PathPattern = Some ''api/*'', TargetOriginId = Some ''web'',
                ViewerProtocolPolicy = Some ''https-only''\<rparr>)
   \<and> cacheBehavior' (fst (snd (initAwsGlobals (example_cdn_env ''s3'') example_cdn_service None
                                 (Some ''/assets'') (Some ''api/*''))))
       = Some \<lparr>PathPattern = Some ''*'', TargetOriginId = Some ''s3'',
               ViewerProtocolPolicy = Some ''allow-all''\<rparr>
   \<and> cacheBehavior' (fst (snd (initAwsGlobals (example_cdn_env ''s3'') example_cdn_service None
                                 (Some ''/assets'') (Some ''images/*''))))
       = Some \<lparr>PathPattern = Some ''images/*'', TargetOriginId = Some ''s3'',
               ViewerProtocolPolicy = Some ''redirect-to-https''\<rparr>"
proof -
  let ?run = "initAwsGlobals (example_cdn_env ''s3'') example_cdn_service None (Some ''/assets'')
                (Some ''api/*'')"
  have h: "?run = (fst ?run, fst (snd ?run), snd (snd ?run))" by simp
  have r: "fst ?run = Inr ()" using resolver_cache_behavior_target[OF h] by blast
  have id: "s3OriginId (fst (snd ?run)) = Some ''s3''" by (simp add: model_defs)
  have ch: "\<exists>dc. DistributionConfig (example_distribution ''s3'') = Some dc
         \<and> fst (chosenCacheBehavior example_cdn_service dc (Some ''api/*''))
             = \<lparr>PathPattern = Some ''api/*'', TargetOriginId = Some ''web'',
                ViewerProtocolPolicy = Some ''https-only''\<rparr>"
    by (simp add: model_defs)
  have api: "cacheBehavior' (fst (snd ?run))
       = Some \<lparr>PathPattern = Some ''*'', TargetOriginId = Some ''s3'',
               ViewerProtocolPolicy = Some ''allow-all''\<rparr>"
    by (simp add: model_defs)
  have images: "cacheBehavior' (fst (snd (initAwsGlobals (example_cdn_env ''s3'')
                    example_cdn_service None (Some ''/assets'') (Some ''images/*''))))
       = Some \<lparr>PathPattern = Some ''images/*'', TargetOriginId = Some ''s3'',
               ViewerProtocolPolicy = Some ''redirect-to-https''\<rparr>"
    by (simp add: model_defs)
  show ?thesis using r id ch api images by blast
qed

theorem resolver_target_equality_counterexample:
  "fst (initAwsGlobals (example_cdn_env ''web'') example_cdn_service None (Some ''/assets'')
          (Some ''api/*'')) = Inr ()
   \<and> (\<exists>cb og.
        cacheBehavior' (fst (snd (initAwsGlobals (example_cdn_env ''web'') example_cdn_service
                                    None (Some ''/assets'') None))) = Some cb
        \<and> s3Origin' (fst (snd (initAwsGlobals (example_cdn_env ''web'') example_cdn_service
                                  None (Some ''/assets'') None))) = Some og
        \<and> TargetOriginId cb = Some ''web'' \<and> Id' og = Some ''s3''
        \<and> TargetOriginId cb \<noteq> Id' og)
   \<and> (\<exists>cb og.
        cacheBehavior' (fst (snd (initAwsGlobals (example_cdn_env ''web'') example_cdn_service
                                    None (Some ''/assets'') (Some ''api/*'')))) = Some cb
        \<and> s3Origin' (fst (snd (initAwsGlobals (example_cdn_env ''web'') example_cdn_service
                                  None (Some ''/assets'') (Some ''api/*'')))) = Some og
        \<and> cb = \<lparr>PathPattern = Some ''*'', TargetOriginId = Some ''web'',
                 ViewerProtocolPolicy = Some ''allow-all''\<rparr>
        \<and> Id' og = Some ''s3''
        \<and> TargetOriginId cb \<noteq> Id' og)"
  by (simp add: model_defs)

text \<open>
  C3 (amended). When fetching the distribution throws, \<open>initAwsGlobals\<close> completes
  without an error and leaves the base URL scheme, \<open>://\<close>, bucket, \<open>.s3.amazonaws.com\<close>,
  whether or not a domain name preference is supplied, a storage origin made from the
  origin path preference when one is supplied (none otherwise), and no cache behavior:
  the configuration of the branch without a distribution for the same origin path and no
  domain name.
\<close>

theorem fetch_failure_configuration:
  assumes "truthy (cloudFrontDistributionId' this)"
      and "fst (getCloudFrontDistribution env (interpolate (cloudFrontDistributionId' this))) = Inl e"
      and "initAwsGlobals env this domainName s3OriginPath pat = (r, this1, evs)"
  shows "r = Inr ()
     \<and> baseUrl' this1
         = Some (protocol' this @ ''://'' @ interpolate (bucketName' this) @ ''.s3.amazonaws.com'')
     \<and> s3Origin' this1
         = (if truthy s3OriginPath
            then Some \<lparr>Id' = Some [],
                       DomainName = Some (interpolate (bucketName' this) @ ''.s3.amazonaws.com''),
                       OriginPath = s3OriginPath\<rparr>
            else None)
     \<and> cacheBehavior' this1 = None
     \<and> ResolvedConfig this1
         = ResolvedConfig (fst (snd (initAwsGlobals env (this\<lparr>cloudFrontDistributionId' := None\<rparr>)
                                       None s3OriginPath pat)))"
proof -
  have run: "initAwsGlobals env this domainName s3OriginPath pat =
           (Inr (), setDefaults this s3OriginPath None,
            [GetDistributionCommand (interpolate (cloudFrontDistributionId' this))])"
    by (rule initAwsGlobals_fetch_failure[OF assms(1,2)])
  have r: "r = Inr ()" and this1: "this1 = setDefaults this s3OriginPath None"
    using run assms(3) by simp_all
  have branch: "fst (snd (initAwsGlobals env (this\<lparr>cloudFrontDistributionId' := None\<rparr>)
                              None s3OriginPath pat))
      = setDefaults (this\<lparr>cloudFrontDistributionId' := None\<rparr>) s3OriginPath None"
    by (simp add: initAwsGlobals_def truthy_def)
  show ?thesis
    unfolding r this1 branch
    by (simp add: setDefaults_def ResolvedConfig_def truthy_def Let_def)
qed

theorem fetch_failure_configuration_witness:
  "truthy (cloudFrontDistributionId' example_cdn_service)
   \<and> fst (getCloudFrontDistribution example_outage_env
             (interpolate (cloudFrontDistributionId' example_cdn_service)))
       = Inl (Rejected ''ServiceUnavailable'')
   \<and> fst (initAwsGlobals example_outage_env example_cdn_service (Some ''cdn.example.com'')
             (Some ''/assets'') None) = Inr ()
   \<and> ResolvedConfig (fst (snd (initAwsGlobals example_outage_env example_cdn_service
                                  (Some ''cdn.example.com'') (Some ''/assets'') None)))
       = (Some ''https://b.s3.amazonaws.com'',
          Some \<lparr>Id' = Some [], DomainName = Some ''b.s3.amazonaws.com'',
                OriginPath = Some ''/assets''\<rparr>,
          None)"
proof -
  let ?run = "initAwsGlobals example_outage_env example_cdn_service (Some ''cdn.example.com'')
                (Some ''/assets'') None"
  have h1: "truthy (cloudFrontDistributionId' example_cdn_service)"
    by (simp add: example_cdn_service_def truthy_def)
  have h2: "fst (getCloudFrontDistribution example_outage_env
                   (interpolate (cloudFrontDistributionId' example_cdn_service)))
       = Inl (Rejected ''ServiceUnavailable'')"
    by (simp add: getCloudFrontDistribution_def example_outage_env_def example_env_def)
  have h3: "?run = (fst ?run, fst (snd ?run), snd (snd ?run))" by simp
  have f: "protocol' example_cdn_service = ''https''" "bucketName' example_cdn_service = Some ''b''"
    by (simp_all add: example_cdn_service_def example_service_def)
  from fetch_failure_configuration[OF h1 h2 h3] h1 h2 f
  show ?thesis by (simp add: ResolvedConfig_def truthy_def interpolate_def)
qed

theorem fetch_failure_domain_name_counterexample:
  "fst (getCloudFrontDistribution example_outage_env
          (interpolate (cloudFrontDistributionId' example_cdn_service)))
     = Inl (Rejected ''ServiceUnavailable'')
   \<and> example_cdn_service\<lparr>cloudFrontDistributionId' := None\<rparr> = example_service
   \<and> baseUrl' (fst (snd (initAwsGlobals example_outage_env example_cdn_service
                            (Some ''cdn.example.com'') (Some ''/assets'') None)))
       = Some ''https://b.s3.amazonaws.com''
   \<and> baseUrl' (fst (snd (initAwsGlobals example_outage_env example_service
                            (Some ''cdn.example.com'') (Some ''/assets'') None)))
       = Some ''https://cdn.example.com''
   \<and> ResolvedConfig (fst (snd (initAwsGlobals example_outage_env example_cdn_service
                                  (Some ''cdn.example.com'') (Some ''/assets'') None)))
       \<noteq> ResolvedConfig (fst (snd (initAwsGlobals example_outage_env example_service
                                       (Some ''cdn.example.com'') (Some ''/assets'') None)))"
  by (simp add: model_defs)

text \<open>
  C6. Without a distribution id, with the origin path preference \<open>/assets\<close> and no domain
  name preference, the key built for the file name \<open>a.png\<close> is \<open>assets/a.png\<close>, and the
  absolute URL of that key is the scheme, \<open>://\<close>, the bucket,
  \<open>.s3.amazonaws.com/assets/a.png\<close>: no cache behavior is resolved, so nothing is
  stripped from the path.
\<close>

theorem no_cdn_origin_path_key_and_url:
  assumes "\<not> truthy (cloudFrontDistributionId' this)"
      and "\<not> truthy domainName"
      and "bucketName' this = Some bucket"
      and "initAwsGlobals env this domainName (Some ''/assets'') cacheBehaviorPathPattern
             = (r, this1, evs)"
  shows "getKeyFromFile this1 (Some \<lparr>originalname = Some ''a.png'', path = p\<rparr>) = ''assets/a.png''
       \<and> getUrlFromKey runtime this1 ''assets/a.png'' False
           = Inr (protocol' this @ ''://'' @ bucket @ ''.s3.amazonaws.com/assets/a.png'')"
  using assms
  by (auto simp: initAwsGlobals_def setDefaults_def getKeyFromFile_def getUrlFromKey_def
      truthy_def interpolate_def strip_leading_slash_def Let_def)

theorem no_cdn_origin_path_key_and_url_witness:
  "\<not> truthy (cloudFrontDistributionId' example_service)
   \<and> \<not> truthy None
   \<and> bucketName' example_service = Some ''b''
   \<and> getKeyFromFile
        (fst (snd (initAwsGlobals example_outage_env example_service None (Some ''/assets'') None)))
        (Some \<lparr>originalname = Some ''a.png'', path = None\<rparr>) = ''assets/a.png''
   \<and> getUrlFromKey example_outage_env
        (fst (snd (initAwsGlobals example_outage_env example_service None (Some ''/assets'') None)))
        ''assets/a.png'' False = Inr ''https://b.s3.amazonaws.com/assets/a.png''"
proof -
  have h1: "\<not> truthy (cloudFrontDistributionId' example_service)"
    by (simp add: example_service_def truthy_def)
  have h2: "\<not> truthy None" by (simp add: truthy_def)
  have h3: "bucketName' example_service = Some ''b''" by (simp add: example_service_def)
  have h4: "initAwsGlobals example_outage_env example_service None (Some ''/assets'') None
      = (fst (initAwsGlobals example_outage_env example_service None (Some ''/assets'') None),
         fst (snd (initAwsGlobals example_outage_env example_service None (Some ''/assets'') None)),
         snd (snd (initAwsGlobals example_outage_env example_service None (Some ''/assets'') None)))"
    by simp
  have p: "protocol' example_service = ''https''" by (simp add: example_service_def)
  from no_cdn_origin_path_key_and_url[OF h1 h2 h3 h4, of None example_outage_env] h1 h2 h3 p
  show ?thesis by simp
qed

text \<open>
  C7. For a distribution with a non-empty alias list and its own domain name, and a
  requested domain name that is not among the aliases, \<open>setBaseUrl\<close> (which has no
  throwing statement, hence no error in its result) logs the warning that the domain name
  is not included in the aliases and returns the scheme, \<open>://\<close> and the distribution's own
  domain name.
\<close>

theorem setBaseUrl_unlisted_domain_name:
  assumes "DistributionConfig distribution = Some distributionConfig"
      and "Aliases distributionConfig = Some items" and "items \<noteq> []"
      and "domainName = Some requested" and "requested \<noteq> []"
      and "requested \<notin> set items"
      and "Distribution_DomainName distribution = Some own" and "own \<noteq> []"
  shows "setBaseUrl this distribution domainName =
           (protocol' this @ ''://'' @ own, [Console (WarnDomainNameNotInAliases requested)])"
  using assms
  by (simp add: setBaseUrl_def truthy_def interpolate_def Let_def)

theorem setBaseUrl_unlisted_domain_name_witness:
  "(\<exists>distributionConfig.
      DistributionConfig (example_distribution ''s3'') = Some distributionConfig
      \<and> Aliases distributionConfig = Some [''media.example.com''])
   \<and> ''cdn.example.com'' \<notin> set [''media.example.com'']
   \<and> Distribution_DomainName (example_distribution ''s3'') = Some ''d1.cloudfront.net''
   \<and> setBaseUrl example_service (example_distribution ''s3'') (Some ''cdn.example.com'') =
        (''https://d1.cloudfront.net'', [Console (WarnDomainNameNotInAliases ''cdn.example.com'')])"
proof -
  obtain dc where dc: "DistributionConfig (example_distribution ''s3'') = Some dc"
    and al: "Aliases dc = Some [''media.example.com'']"
    by (simp add: example_distribution_def)
  have own: "Distribution_DomainName (example_distribution ''s3'') = Some ''d1.cloudfront.net''"
    by (simp add: example_distribution_def)
  have notin: "''cdn.example.com'' \<notin> set [''media.example.com'']" by simp
  have p: "protocol' example_service = ''https''" by (simp add: example_service_def)
  from setBaseUrl_unlisted_domain_name[OF dc al _ refl _ notin own, of example_service] dc al own notin p
  show ?thesis by simp
qed

text \<open>
  C8. The ACL of the put input is \<open>private\<close> when the protected flag is set, whatever the
  upload options say; otherwise it is the configured ACL when one is configured (a
  non-empty string), and \<open>public-read\<close> when none is. That input is what \<open>uploadFile\<close>
  sends to the object store first.
\<close>

theorem put_acl:
  "(isProtected \<longrightarrow> ACL (getPutObjectCommandInput this file isProtected) = Some ''private'')
   \<and> (\<not> isProtected \<and> truthy (ACL (uploadOptions' this))
        \<longrightarrow> ACL (getPutObjectCommandInput this file isProtected) = ACL (uploadOptions' this))
   \<and> (\<not> isProtected \<and> \<not> truthy (ACL (uploadOptions' this))
        \<longrightarrow> ACL (getPutObjectCommandInput this file isProtected) = Some ''public-read'')
   \<and> (\<exists>rest. snd (uploadFile env this file isProtected)
          = PutObjectCommand (getPutObjectCommandInput this file isProtected) # rest)"
  using uploadFile_first_event[of env this "file" isProtected]
  by (simp add: getPutObjectCommandInput_def)

theorem put_acl_witness:
  "ACL (getPutObjectCommandInput
          (example_service\<lparr>uploadOptions' := (uploadOptions' example_service)\<lparr>ACL := Some ''authenticated-read''\<rparr>\<rparr>)
          None True) = Some ''private''
   \<and> ACL (getPutObjectCommandInput
          (example_service\<lparr>uploadOptions' := (uploadOptions' example_service)\<lparr>ACL := Some ''authenticated-read''\<rparr>\<rparr>)
          None False) = Some ''authenticated-read''
   \<and> ACL (getPutObjectCommandInput example_service None False) = Some ''public-read''"
proof -
  let ?svc = "example_service\<lparr>uploadOptions' := (uploadOptions' example_service)\<lparr>ACL := Some ''authenticated-read''\<rparr>\<rparr>"
  have a: "truthy (ACL (uploadOptions' ?svc))" "ACL (uploadOptions' ?svc) = Some ''authenticated-read''"
    by (simp_all add: truthy_def)
  have b: "\<not> truthy (ACL (uploadOptions' example_service))"
    by (simp add: truthy_def example_service_def)
  from put_acl[of True ?svc None example_outage_env]
    put_acl[of False ?svc None example_outage_env]
    put_acl[of False example_service None example_outage_env] a b
  show ?thesis by simp
qed

text \<open>
  C2. With a resolved cache behavior whose path pattern is exactly \<open>*\<close> and a resolved
  storage origin whose origin path is \<open>/assets\<close>, for every file: the key of the file has
  an absolute URL, and the key read back from that URL is the key of the file.
\<close>

theorem key_url_round_trip:
  assumes "cacheBehavior' this = Some cb" and "PathPattern cb = Some ''*''"
      and "s3Origin' this = Some og" and "OriginPath og = Some ''/assets''"
  shows "\<exists>u. getUrlFromKey env this (getKeyFromFile this (Some f)) False = Inr u
           \<and> getKeyFromUrl this u = getKeyFromFile this (Some f)"
proof -
  let ?n = "interpolate (originalname f)"
  have key: "getKeyFromFile this (Some f) = ''assets/'' @ ?n"
    using assms by (simp add: getKeyFromFile_def truthy_def interpolate_def strip_leading_slash_def)
  have u: "getUrlFromKey env this (''assets/'' @ ?n) False
      = Inr (interpolate (baseUrl' this) @ ''/'' @ ?n)"
    using assms replace_anchored_assets[of env ?n] by (simp add: getUrlFromKey_def)
  have inv: "getKeyFromUrl this (interpolate (baseUrl' this) @ ''/'' @ ?n) = ''assets/'' @ ?n"
    using assms by (simp add: getKeyFromUrl_def remove_first_prefix strip_leading_slash_def)
  show ?thesis using key u inv by simp
qed

theorem key_url_round_trip_witness:
  "(\<exists>cb og. cacheBehavior' example_resolved = Some cb \<and> PathPattern cb = Some ''*''
       \<and> s3Origin' example_resolved = Some og \<and> OriginPath og = Some ''/assets'')
   \<and> getKeyFromFile example_resolved (Some \<lparr>originalname = Some ''a.png'', path = None\<rparr>)
        = ''assets/a.png''
   \<and> getUrlFromKey (example_cdn_env ''s3'') example_resolved ''assets/a.png'' False
        = Inr ''https://d1.cloudfront.net/a.png''
   \<and> getKeyFromUrl example_resolved ''https://d1.cloudfront.net/a.png'' = ''assets/a.png''"
proof -
  let ?f = "\<lparr>originalname = Some ''a.png'', path = None\<rparr>"
  obtain cb og where h: "cacheBehavior' example_resolved = Some cb" "PathPattern cb = Some ''*''"
      "s3Origin' example_resolved = Some og" "OriginPath og = Some ''/assets''"
    by (simp add: example_resolved_fields)
  have key: "getKeyFromFile example_resolved (Some ?f) = ''assets/a.png''"
    by (simp add: getKeyFromFile_def example_resolved_fields truthy_def interpolate_def
        strip_leading_slash_def)
  have u: "getUrlFromKey (example_cdn_env ''s3'') example_resolved ''assets/a.png'' False
      = Inr ''https://d1.cloudfront.net/a.png''"
    by (simp add: getUrlFromKey_def example_resolved_fields replace_anchored_def
        regexp_syntax_chars_def interpolate_def)
  from key_url_round_trip[OF h, of "example_cdn_env ''s3''" ?f] key u h
  show ?thesis by auto
qed

text \<open>
  C10. \<open>getPresignedDownloadUrl\<close> hands to the signer the command input built from the
  last \<open>/\<close>-separated segment of the file key it is given (to the S3 signer without a
  distribution id; with one, the CloudFront signer gets the absolute URL of that input's
  key). The key of that input is the one \<open>getKeyFromFile\<close> builds from the segment, so the
  signed key is the given file key exactly when the file key is the origin-path prefix
  followed by one segment, and it differs from the file key whenever what follows the
  prefix contains a \<open>/\<close>.
\<close>

theorem presigned_key_last_segment:
  assumes "initAwsGlobals_own env this = (r0, this1, evs0)"
  shows "(\<not> truthy (cloudFrontDistributionId' this1) \<longrightarrow>
            getPresignedDownloadUrl env this fd =
              (getS3SignedUrl env (presignedParams this1 fd) (downloadUrlDuration' this1), this1,
               evs0 @ [S3SignedUrl (presignedParams this1 fd) (downloadUrlDuration' this1)]))
       \<and> (truthy (cloudFrontDistributionId' this1)
            \<and> getUrlFromKey env this1 (Key (presignedParams this1 fd)) False = Inr u
            \<and> downloadUrlDuration' this1 = Some d
            \<and> \<bar>Date_now env + d * 1000\<bar> \<le> max_Date \<longrightarrow>
            getPresignedDownloadUrl env this fd =
              (getCloudFrontSignedUrl env u (cloudFrontKeyPairId' this1) (Date_now env + d * 1000)
                 (cloudFrontKeyPrivateKey' this1), this1,
               evs0 @ [CloudFrontSignedUrl u (cloudFrontKeyPairId' this1) (Date_now env + d * 1000)
                         (cloudFrontKeyPrivateKey' this1)]))
       \<and> presignedParams this1 fd
           = getPutObjectCommandInput this1
               (Some \<lparr>originalname = at_last (split_slash (fileKey fd)), path = None\<rparr>) False
       \<and> Key (presignedParams this1 fd)
           = getKeyFromFile this1
               (Some \<lparr>originalname = at_last (split_slash (fileKey fd)), path = None\<rparr>)
       \<and> (Key (presignedParams this1 fd) = fileKey fd
            \<longleftrightarrow> (\<exists>seg. CHR ''/'' \<notin> set seg \<and> fileKey fd = origin_path_prefix this1 @ seg))
       \<and> (\<forall>rest. fileKey fd = origin_path_prefix this1 @ rest \<and> CHR ''/'' \<in> set rest
              \<longrightarrow> Key (presignedParams this1 fd) \<noteq> fileKey fd)"
proof -
  have r0: "r0 = Inr ()" using init_returns[of env this] assms by simp
  have s3: "getPresignedDownloadUrl env this fd =
              (getS3SignedUrl env (presignedParams this1 fd) (downloadUrlDuration' this1), this1,
               evs0 @ [S3SignedUrl (presignedParams this1 fd) (downloadUrlDuration' this1)])"
    if "\<not> truthy (cloudFrontDistributionId' this1)"
    using that assms r0 by (simp add: getPresignedDownloadUrl_def Let_def)
  have cf: "getPresignedDownloadUrl env this fd =
              (getCloudFrontSignedUrl env u (cloudFrontKeyPairId' this1) (Date_now env + d * 1000)
                 (cloudFrontKeyPrivateKey' this1), this1,
               evs0 @ [CloudFrontSignedUrl u (cloudFrontKeyPairId' this1) (Date_now env + d * 1000)
                         (cloudFrontKeyPrivateKey' this1)])"
    if "truthy (cloudFrontDistributionId' this1)"
      and "getUrlFromKey env this1 (Key (presignedParams this1 fd)) False = Inr u"
      and "downloadUrlDuration' this1 = Some d"
      and "\<bar>Date_now env + d * 1000\<bar> \<le> max_Date"
    using that assms r0 by (simp add: getPresignedDownloadUrl_def Let_def)
  have params: "presignedParams this1 fd
           = getPutObjectCommandInput this1
               (Some \<lparr>originalname = at_last (split_slash (fileKey fd)), path = None\<rparr>) False"
    by (simp add: presignedParams_def Let_def)
  have src: "Key (presignedParams this1 fd)
     = getKeyFromFile this1 (Some \<lparr>originalname = at_last (split_slash (fileKey fd)), path = None\<rparr>)"
    by (simp add: params getPutObjectCommandInput_def)
  obtain seg0 where seg0: "at_last (split_slash (fileKey fd)) = Some seg0" "CHR ''/'' \<notin> set seg0"
    using last_segment by blast
  have key: "Key (presignedParams this1 fd) = origin_path_prefix this1 @ seg0"
    by (simp add: presigned_key seg0 interpolate_def)
  have fwd: "Key (presignedParams this1 fd) = fileKey fd
      \<Longrightarrow> \<exists>seg. CHR ''/'' \<notin> set seg \<and> fileKey fd = origin_path_prefix this1 @ seg"
    using key seg0(2) by metis
  have bwd: "Key (presignedParams this1 fd) = fileKey fd"
    if "CHR ''/'' \<notin> set seg" and "fileKey fd = origin_path_prefix this1 @ seg" for seg
  proof -
    have "at_last (split_slash (fileKey fd)) = Some seg"
      unfolding that(2) by (rule last_segment_after_prefix[OF origin_path_prefix_shape that(1)])
    then have "seg0 = seg" using seg0(1) by simp
    then show ?thesis using key that(2) by simp
  qed
  have diff: "Key (presignedParams this1 fd) \<noteq> fileKey fd"
    if "fileKey fd = origin_path_prefix this1 @ rest" and "CHR ''/'' \<in> set rest" for rest
  proof
    assume "Key (presignedParams this1 fd) = fileKey fd"
    then have "rest = seg0" using key that(1) by simp
    then show False using that(2) seg0(2) by simp
  qed
  have iff: "Key (presignedParams this1 fd) = fileKey fd
            \<longleftrightarrow> (\<exists>seg. CHR ''/'' \<notin> set seg \<and> fileKey fd = origin_path_prefix this1 @ seg)"
    using fwd bwd by blast
  show ?thesis
    apply (intro conjI impI allI)
    subgoal using s3 by simp
    subgoal using cf by simp
    subgoal by (rule params)
    subgoal by (rule src)
    subgoal by (rule iff)
    subgoal using diff by blast
    done
qed

theorem presigned_key_last_segment_witness:
  "initAwsGlobals_own (example_cdn_env ''s3'') example_cdn_service
     = (Inr (), example_resolved, [GetDistributionCommand ''E1''])
   \<and> truthy (cloudFrontDistributionId' example_resolved)
   \<and> origin_path_prefix example_resolved = ''assets/''
   \<and> getPresignedDownloadUrl (example_cdn_env ''s3'') example_cdn_service
        \<lparr>fileKey = ''assets/img/a.png''\<rparr>
       = (Inr ''signed:https://d1.cloudfront.net/a.png'', example_resolved,
          [GetDistributionCommand ''E1'',
           CloudFrontSignedUrl ''https://d1.cloudfront.net/a.png'' None 3600000 None])
   \<and> Key (presignedParams example_resolved \<lparr>fileKey = ''assets/a.png''\<rparr>) = ''assets/a.png''
   \<and> Key (presignedParams example_resolved \<lparr>fileKey = ''assets/img/a.png''\<rparr>) = ''assets/a.png''
   \<and> Key (presignedParams example_resolved \<lparr>fileKey = ''assets/img/a.png''\<rparr>) \<noteq> ''assets/img/a.png''
   \<and> \<not> truthy (cloudFrontDistributionId' example_service)
   \<and> snd (snd (getPresignedDownloadUrl example_outage_env example_service
                   \<lparr>fileKey = ''assets/img/a.png''\<rparr>))
       = [S3SignedUrl \<lparr>ACL = Some ''public-read'', CacheControl = None,
                       ServerSideEncryption = None, StorageClass = None,
                       Bucket = Some ''b'', Key = ''assets/a.png'', Body = PassThrough\<rparr>
            (Some 3600)]"
proof -
  let ?env = "example_cdn_env ''s3''"
  let ?one = "\<lparr>fileKey = ''assets/a.png''\<rparr>"
  let ?two = "\<lparr>fileKey = ''assets/img/a.png''\<rparr>"
  have h1: "initAwsGlobals_own ?env example_cdn_service
      = (Inr (), example_resolved, [GetDistributionCommand ''E1''])"
    unfolding example_resolved_def prod_eq_iff by (simp add: model_defs)
  have h2: "truthy (cloudFrontDistributionId' example_resolved)"
    by (simp add: example_resolved_fields truthy_def)
  have p: "origin_path_prefix example_resolved = ''assets/''"
    by (simp add: origin_path_prefix_def example_resolved_fields truthy_def interpolate_def
        strip_leading_slash_def)
  have key2: "Key (presignedParams example_resolved ?two) = ''assets/a.png''"
    by (simp add: presigned_key p interpolate_def at_last_def)
  have u: "getUrlFromKey ?env example_resolved (Key (presignedParams example_resolved ?two)) False
      = Inr ''https://d1.cloudfront.net/a.png''"
    unfolding key2
    by (simp add: getUrlFromKey_def example_resolved_fields replace_anchored_def
        regexp_syntax_chars_def interpolate_def)
  have d: "downloadUrlDuration' example_resolved = Some 3600"
    by (simp add: example_resolved_fields)
  have sign: "getCloudFrontSignedUrl ?env v kp ex pk = Inr (''signed:'' @ v)"
    "Date_now ?env = 0" for v kp ex pk
    by (simp_all add: example_cdn_env_def example_env_def)
  have range: "\<bar>Date_now ?env + 3600 * 1000\<bar> \<le> max_Date"
    by (simp add: sign max_Date_def)
  note cdn = presigned_key_last_segment[OF h1, of ?two "''https://d1.cloudfront.net/a.png''" 3600]
  have signed: "getPresignedDownloadUrl ?env example_cdn_service ?two
       = (Inr ''signed:https://d1.cloudfront.net/a.png'', example_resolved,
          [GetDistributionCommand ''E1'',
           CloudFrontSignedUrl ''https://d1.cloudfront.net/a.png'' None 3600000 None])"
    using cdn h2 u d range sign by (simp add: example_resolved_fields)
  have a: "\<exists>seg. CHR ''/'' \<notin> set seg \<and> fileKey ?one = origin_path_prefix example_resolved @ seg"
    by (rule exI[of _ "''a.png''"]) (simp add: p)
  have one: "Key (presignedParams example_resolved ?one) = fileKey ?one"
    using presigned_key_last_segment[OF h1, of ?one] a by blast
  have b: "fileKey ?two = origin_path_prefix example_resolved @ ''img/a.png''
      \<and> CHR ''/'' \<in> set ''img/a.png''"
    by (simp add: p)
  have two: "Key (presignedParams example_resolved ?two) \<noteq> fileKey ?two"
    using cdn b by blast
  have h3: "\<not> truthy (cloudFrontDistributionId' example_service)"
    by (simp add: example_service_def truthy_def)
  have plain: "snd (snd (getPresignedDownloadUrl example_outage_env example_service ?two))
       = [S3SignedUrl \<lparr>ACL = Some ''public-read'', CacheControl = None,
                       ServerSideEncryption = None, StorageClass = None,
                       Bucket = Some ''b'', Key = ''assets/a.png'', Body = PassThrough\<rparr>
            (Some 3600)]"
    by (simp add: model_defs)
  show ?thesis using h1 h2 p signed one key2 two h3 plain by simp
qed

text \<open>
  C9. When no distribution id is configured, or the path is the empty string,
  \<open>invalidateFile\<close> returns without any effect; so an upload (protected or not) by a
  service without a distribution id sends no invalidation request.
\<close>

theorem no_invalidation_without_distribution:
  "(\<not> truthy (cloudFrontDistributionId' this) \<or> pth = []
       \<longrightarrow> invalidateFile env this pth = (Inr (), []))
   \<and> (\<not> truthy (cloudFrontDistributionId' this)
       \<longrightarrow> \<not> list_ex is_invalidation (snd (snd (upload env this file)))
         \<and> \<not> list_ex is_invalidation (snd (snd (uploadProtected env this file))))"
  by (simp add: invalidateFile_skips upload_def uploadProtected_def init_no_cdn uploadFile_no_cdn)

theorem no_invalidation_without_distribution_witness:
  "\<not> truthy (cloudFrontDistributionId' example_service)
   \<and> invalidateFile (example_cdn_env ''s3'') example_service ''/assets/a.png'' = (Inr (), [])
   \<and> invalidateFile (example_cdn_env ''s3'') example_resolved [] = (Inr (), [])
   \<and> \<not> list_ex is_invalidation
         (snd (snd (upload (example_cdn_env ''s3'') example_service
                      (Some \<lparr>originalname = Some ''a.png'', path = None\<rparr>))))"
proof -
  have h: "\<not> truthy (cloudFrontDistributionId' example_service)"
    by (simp add: example_service_def truthy_def)
  from no_invalidation_without_distribution[of example_service "''/assets/a.png''"
        "example_cdn_env ''s3''" "Some \<lparr>originalname = Some ''a.png'', path = None\<rparr>"]
    no_invalidation_without_distribution[of example_resolved "[]" "example_cdn_env ''s3''" None] h
  show ?thesis by simp
qed

text \<open>
  C5. When the object store's delete reports no result, \<open>removeFile\<close>, and \<open>delete\<close>
  with it, throw the error \<open>File deletion failed\<close>; and no run of either, failed or not,
  sends an invalidation request.
\<close>

theorem remove_fails_without_result_and_never_invalidates:
  "(s3_DeleteObject env (bucketName' this) k = Inr None
      \<longrightarrow> fst (removeFile env this k) = Inl (Error ''File deletion failed''))
   \<and> \<not> list_ex is_invalidation (snd (removeFile env this k))
   \<and> (s3_DeleteObject env (bucketName' (fst (snd (initAwsGlobals_own env this)))) (fileKey fd) = Inr None
      \<longrightarrow> fst (delete env this fd) = Inl (Error ''File deletion failed''))
   \<and> \<not> list_ex is_invalidation (snd (snd (delete env this fd)))"
proof -
  obtain r0 this1 evs0 where i: "initAwsGlobals_own env this = (r0, this1, evs0)"
    by (cases "initAwsGlobals_own env this") auto
  have r0: "r0 = Inr ()" using init_returns[of env this] i by simp
  have quiet: "\<not> list_ex is_invalidation evs0"
    using init_events[of env this] i by simp
  have d: "delete env this fd = (fst (removeFile env this1 (fileKey fd)), this1,
                                   evs0 @ snd (removeFile env this1 (fileKey fd)))"
    using i r0 by (simp add: delete_def Let_def)
  have one: "s3_DeleteObject env (bucketName' s) key = Inr None
      \<Longrightarrow> fst (removeFile env s key) = Inl (Error ''File deletion failed'')" for s key
    by (simp add: removeFile_def)
  show ?thesis using one[of this k] one[of this1 "fileKey fd"] removeFile_events i d quiet
    by simp
qed

theorem remove_fails_without_result_and_never_invalidates_witness:
  "s3_DeleteObject example_outage_env (bucketName' example_cdn_service) ''assets/a.png'' = Inr None
   \<and> removeFile example_outage_env example_cdn_service ''assets/a.png''
       = (Inl (Error ''File deletion failed''), [DeleteObjectCommand (Some ''b'') ''assets/a.png''])
   \<and> fst (delete example_outage_env example_cdn_service \<lparr>fileKey = ''assets/a.png''\<rparr>)
       = Inl (Error ''File deletion failed'')
   \<and> snd (snd (delete example_outage_env example_cdn_service \<lparr>fileKey = ''assets/a.png''\<rparr>))
       = [GetDistributionCommand ''E1'', DeleteObjectCommand (Some ''b'') ''assets/a.png'']"
proof -
  have h: "s3_DeleteObject example_outage_env b k = Inr None" for b k
    by (simp add: example_outage_env_def example_env_def)
  have ev: "snd (removeFile example_outage_env example_cdn_service ''assets/a.png'')
      = [DeleteObjectCommand (Some ''b'') ''assets/a.png'']"
    by (simp add: removeFile_def h example_cdn_service_def example_service_def)
  have evd: "snd (snd (delete example_outage_env example_cdn_service \<lparr>fileKey = ''assets/a.png''\<rparr>))
       = [GetDistributionCommand ''E1'', DeleteObjectCommand (Some ''b'') ''assets/a.png'']"
    by (simp add: model_defs)
  from remove_fails_without_result_and_never_invalidates[of example_outage_env
      example_cdn_service "''assets/a.png''" "\<lparr>fileKey = ''assets/a.png''\<rparr>"] h ev evd
  show ?thesis by (simp add: prod_eq_iff)
qed

text \<open>
  C4. When the object store's put reports a result and the invalidation request that
  follows it throws, \<open>uploadFile\<close> returns the absolute URL of the key: the thrown error
  is logged and goes no further. So do \<open>upload\<close> and \<open>uploadProtected\<close>, which run
  \<open>uploadFile\<close> on the fields \<open>initAwsGlobals\<close> leaves. The request is made when a
  distribution id is configured and the relative URL of the key is computed and not
  empty; this holds whatever the origin path is and whatever the RegExp engine answers.
\<close>

theorem upload_survives_invalidation_failure:
  assumes "s3_PutObject env (getPutObjectCommandInput this file isProtected) = Inr (Some stored)"
      and "truthy (cloudFrontDistributionId' this)"
      and "getUrlFromKey env this (getKeyFromFile this file) True = Inr pth" and "pth \<noteq> []"
      and "cloudFront_CreateInvalidation env (interpolate (cloudFrontDistributionId' this))
             [encodeURI pth] = Inl e"
  shows "getUrlFromKey env this (getKeyFromFile this file) False
           = Inr (interpolate (baseUrl' this) @ pth)
     \<and> uploadFile env this file isProtected =
         (Inr \<lparr>url = interpolate (baseUrl' this) @ pth\<rparr>,
          [PutObjectCommand (getPutObjectCommandInput this file isProtected),
           CreateInvalidationCommand (interpolate (cloudFrontDistributionId' this)) [encodeURI pth],
           Console (WarnInvalidationFailed pth)])
     \<and> (\<forall>this0 r0 evs0. initAwsGlobals_own env this0 = (r0, this, evs0) \<longrightarrow>
          (if isProtected then uploadProtected env this0 file else upload env this0 file) =
            (Inr \<lparr>url = interpolate (baseUrl' this) @ pth\<rparr>, this,
             evs0 @
             [PutObjectCommand (getPutObjectCommandInput this file isProtected),
              CreateInvalidationCommand (interpolate (cloudFrontDistributionId' this))
                [encodeURI pth],
              Console (WarnInvalidationFailed pth)]))"
proof -
  have key: "Key (getPutObjectCommandInput this file isProtected) = getKeyFromFile this file"
    by (simp add: getPutObjectCommandInput_def)
  have absolute: "getUrlFromKey env this (getKeyFromFile this file) False
      = Inr (interpolate (baseUrl' this) @ pth)"
    by (rule getUrlFromKey_absolute[OF assms(3)])
  have inval: "invalidateFile env this pth =
      (Inr (), [CreateInvalidationCommand (interpolate (cloudFrontDistributionId' this)) [encodeURI pth],
                Console (WarnInvalidationFailed pth)])"
    using assms(2,4,5) by (simp add: invalidateFile_def Let_def)
  have up: "uploadFile env this file isProtected =
         (Inr \<lparr>url = interpolate (baseUrl' this) @ pth\<rparr>,
          [PutObjectCommand (getPutObjectCommandInput this file isProtected),
           CreateInvalidationCommand (interpolate (cloudFrontDistributionId' this)) [encodeURI pth],
           Console (WarnInvalidationFailed pth)])"
    using assms(1,3) absolute inval by (simp add: uploadFile_def Let_def key)
  have pub: "(if isProtected then uploadProtected env this0 file else upload env this0 file) =
            (Inr \<lparr>url = interpolate (baseUrl' this) @ pth\<rparr>, this,
             evs0 @
             [PutObjectCommand (getPutObjectCommandInput this file isProtected),
              CreateInvalidationCommand (interpolate (cloudFrontDistributionId' this))
                [encodeURI pth],
              Console (WarnInvalidationFailed pth)])"
    if i: "initAwsGlobals_own env this0 = (r0, this, evs0)" for this0 r0 evs0
  proof -
    have r0: "r0 = Inr ()" using init_returns[of env this0] i by simp
    show ?thesis
    proof (cases isProtected)
      case True
      then show ?thesis using up i r0 by (simp add: uploadProtected_def Let_def)
    next
      case False
      then show ?thesis using up i r0 by (simp add: upload_def Let_def)
    qed
  qed
  show ?thesis using absolute up pub by blast
qed

theorem upload_survives_invalidation_failure_witness:
  "initAwsGlobals_own (example_cdn_env ''s3'') example_cdn_service
     = (Inr (), example_resolved, [GetDistributionCommand ''E1''])
   \<and> s3_PutObject (example_cdn_env ''s3'')
        (getPutObjectCommandInput example_resolved
           (Some \<lparr>originalname = Some ''a b.png'', path = None\<rparr>) False) = Inr (Some ())
   \<and> truthy (cloudFrontDistributionId' example_resolved)
   \<and> getUrlFromKey (example_cdn_env ''s3'') example_resolved
        (getKeyFromFile example_resolved (Some \<lparr>originalname = Some ''a b.png'', path = None\<rparr>))
        True = Inr ''/a b.png''
   \<and> cloudFront_CreateInvalidation (example_cdn_env ''s3'') ''E1'' [''/a%20b.png'']
        = Inl (Rejected ''Throttling'')
   \<and> upload (example_cdn_env ''s3'') example_cdn_service
        (Some \<lparr>originalname = Some ''a b.png'', path = None\<rparr>) =
       (Inr \<lparr>url = ''https://d1.cloudfront.net/a b.png''\<rparr>, example_resolved,
        [GetDistributionCommand ''E1'',
         PutObjectCommand \<lparr>ACL = Some ''public-read'', CacheControl = None,
                           ServerSideEncryption = None, StorageClass = None,
                           Bucket = Some ''b'', Key = ''assets/a b.png'', Body = PassThrough\<rparr>,
         CreateInvalidationCommand ''E1'' [''/a%20b.png''],
         Console (WarnInvalidationFailed ''/a b.png'')])
   \<and> getKeyFromFile example_versioned (Some \<lparr>originalname = Some ''a b.png'', path = None\<rparr>)
        = ''v1.0/a b.png''
   \<and> getUrlFromKey (example_cdn_env ''s3'') example_versioned ''v1.0/a b.png'' True
        = Inr ''/a b.png''
   \<and> uploadFile (example_cdn_env ''s3'') example_versioned
        (Some \<lparr>originalname = Some ''a b.png'', path = None\<rparr>) True =
       (Inr \<lparr>url = ''https://d1.cloudfront.net/a b.png''\<rparr>,
        [PutObjectCommand \<lparr>ACL = Some ''private'', CacheControl = None,
                           ServerSideEncryption = None, StorageClass = None,
                           Bucket = Some ''b'', Key = ''v1.0/a b.png'', Body = PassThrough\<rparr>,
         CreateInvalidationCommand ''E1'' [''/a%20b.png''],
         Console (WarnInvalidationFailed ''/a b.png'')])"
proof -
  let ?env = "example_cdn_env ''s3''"
  let ?f = "Some \<lparr>originalname = Some ''a b.png'', path = None\<rparr>"
  have h0: "initAwsGlobals_own ?env example_cdn_service
      = (Inr (), example_resolved, [GetDistributionCommand ''E1''])"
    unfolding example_resolved_def prod_eq_iff by (simp add: model_defs)
  have put: "s3_PutObject ?env params = Inr (Some ())" for params
    by (simp add: example_cdn_env_def example_env_def)
  have inv: "cloudFront_CreateInvalidation ?env distributionId items = Inl (Rejected ''Throttling'')"
    for distributionId items
    by (simp add: example_cdn_env_def example_env_def)
  have enc: "encodeURI ''/a b.png'' = ''/a%20b.png''" by code_simp
  have ne: "''/a b.png'' \<noteq> []" by simp
  have h2: "truthy (cloudFrontDistributionId' example_resolved)"
    by (simp add: example_resolved_fields truthy_def)
  have key: "getKeyFromFile example_resolved ?f = ''assets/a b.png''"
    by (simp add: getKeyFromFile_def example_resolved_fields truthy_def interpolate_def
        strip_leading_slash_def)
  have h3: "getUrlFromKey ?env example_resolved (getKeyFromFile example_resolved ?f) True
      = Inr ''/a b.png''"
    unfolding key
    by (simp add: getUrlFromKey_def example_resolved_fields replace_anchored_def
        regexp_syntax_chars_def)
  have params: "getPutObjectCommandInput example_resolved ?f False =
      \<lparr>ACL = Some ''public-read'', CacheControl = None, ServerSideEncryption = None,
       StorageClass = None, Bucket = Some ''b'', Key = ''assets/a b.png'', Body = PassThrough\<rparr>"
    by (simp add: getPutObjectCommandInput_def key example_resolved_fields truthy_def)
  have first: "upload ?env example_cdn_service ?f =
       (Inr \<lparr>url = ''https://d1.cloudfront.net/a b.png''\<rparr>, example_resolved,
        [GetDistributionCommand ''E1'',
         PutObjectCommand \<lparr>ACL = Some ''public-read'', CacheControl = None,
                           ServerSideEncryption = None, StorageClass = None,
                           Bucket = Some ''b'', Key = ''assets/a b.png'', Body = PassThrough\<rparr>,
         CreateInvalidationCommand ''E1'' [''/a%20b.png''],
         Console (WarnInvalidationFailed ''/a b.png'')])"
    using upload_survives_invalidation_failure[OF put h2 h3 ne inv, of False] h0
    by (simp add: enc params example_resolved_fields interpolate_def)
  have vfields: "cloudFrontDistributionId' example_versioned = Some ''E1''"
    "baseUrl' example_versioned = Some ''https://d1.cloudfront.net''"
    "bucketName' example_versioned = Some ''b''"
    "cacheBehavior' example_versioned =
       Some \<lparr>PathPattern = Some ''*'', TargetOriginId = Some ''s3'',
             ViewerProtocolPolicy = Some ''allow-all''\<rparr>"
    "s3Origin' example_versioned =
       Some \<lparr>Id' = Some ''s3'', DomainName = Some ''b.s3.amazonaws.com'',
             OriginPath = Some ''/v1.0''\<rparr>"
    "uploadOptions' example_versioned = uploadOptions' example_resolved"
    by (simp_all add: example_versioned_def example_resolved_fields)
  have v2: "truthy (cloudFrontDistributionId' example_versioned)"
    by (simp add: vfields truthy_def)
  have vkey: "getKeyFromFile example_versioned ?f = ''v1.0/a b.png''"
    by (simp add: getKeyFromFile_def vfields truthy_def interpolate_def strip_leading_slash_def)
  have vurl: "getUrlFromKey ?env example_versioned ''v1.0/a b.png'' True = Inr ''/a b.png''"
    by (simp add: getUrlFromKey_def vfields replace_anchored_def regexp_syntax_chars_def
        example_cdn_env_def example_env_def)
  have v3: "getUrlFromKey ?env example_versioned (getKeyFromFile example_versioned ?f) True
      = Inr ''/a b.png''"
    unfolding vkey by (rule vurl)
  have vparams: "getPutObjectCommandInput example_versioned ?f True =
      \<lparr>ACL = Some ''private'', CacheControl = None, ServerSideEncryption = None,
       StorageClass = None, Bucket = Some ''b'', Key = ''v1.0/a b.png'', Body = PassThrough\<rparr>"
    by (simp add: getPutObjectCommandInput_def vkey vfields example_resolved_fields truthy_def)
  have second: "uploadFile ?env example_versioned ?f True =
       (Inr \<lparr>url = ''https://d1.cloudfront.net/a b.png''\<rparr>,
        [PutObjectCommand \<lparr>ACL = Some ''private'', CacheControl = None,
                           ServerSideEncryption = None, StorageClass = None,
                           Bucket = Some ''b'', Key = ''v1.0/a b.png'', Body = PassThrough\<rparr>,
         CreateInvalidationCommand ''E1'' [''/a%20b.png''],
         Console (WarnInvalidationFailed ''/a b.png'')])"
    using upload_survives_invalidation_failure[OF put v2 v3 ne inv, of True]
    by (simp add: enc vparams vfields interpolate_def)
  show ?thesis using h0 put h2 h3 inv first vkey vurl second by simp
qed

section \<open>Further properties\<close>

text \<open>
  The end-to-end example: bucket \<open>b\<close>, no distribution, https, no origin path. Uploading
  \<open>photo.png\<close> sends one put and returns \<open>https://b.s3.amazonaws.com/photo.png\<close>.
\<close>

theorem upload_end_to_end_example:
  "upload (example_env fetched invalidated (Inr (Some ())))
     (example_service\<lparr>s3OriginPath' := None\<rparr>)
     (Some \<lparr>originalname = Some ''photo.png'', path = None\<rparr>)
   = (Inr \<lparr>url = ''https://b.s3.amazonaws.com/photo.png''\<rparr>,
      example_service\<lparr>s3OriginPath' := None, baseUrl' := Some ''https://b.s3.amazonaws.com''\<rparr>,
      [PutObjectCommand \<lparr>ACL = Some ''public-read'', CacheControl = None,
                        ServerSideEncryption = None, StorageClass = None,
                        Bucket = Some ''b'', Key = ''photo.png'', Body = PassThrough\<rparr>])"
  by (simp add: model_defs)

text \<open>
  An origin path preference that no S3 origin of the distribution has: \<open>setS3Origin\<close>
  keeps the S3 origin the default cache behavior targets (the first S3 origin when it
  targets none of them) and logs that the path was not found.
\<close>

theorem setS3Origin_unmatched_origin_path:
  assumes "Origins distributionConfig = Some items"
      and "\<not> list_ex (\<lambda>og. DomainName og = None) items"
      and "s3Origins = filter (\<lambda>og. suffix ''.s3.amazonaws.com'' (interpolate (DomainName og))) items"
      and "s3Origins = first # others"
      and "truthy s3Origin"
      and "find (\<lambda>og. OriginPath og = s3Origin) s3Origins = None"
  shows "setS3Origin distributionConfig s3Origin =
           (Inr (case find (\<lambda>og. Id' og = (case DefaultCacheBehavior distributionConfig of
                                                None \<Rightarrow> None
                                              | Some d \<Rightarrow> Default_TargetOriginId d)) s3Origins of
                   Some og \<Rightarrow> Some og
                 | None \<Rightarrow> Some first),
            [Console (WarnS3OriginPathNotFound (interpolate s3Origin))])"
proof -
  have eq: "filter (\<lambda>og. suffix ''.s3.amazonaws.com'' (interpolate (DomainName og))) items
      = first # others"
    using assms(3,4) by simp
  have nf: "find (\<lambda>og. OriginPath og = s3Origin) (first # others) = None"
    using assms(4,6) by simp
  show ?thesis
    unfolding assms(4) using assms(1,2,5) nf
    by (simp add: setS3Origin_def Let_def eq split: option.splits)
qed

theorem setS3Origin_unmatched_origin_path_witness:
  "(\<exists>distributionConfig.
      DistributionConfig (example_distribution ''web'') = Some distributionConfig
      \<and> truthy (Some ''/media'')
      \<and> setS3Origin distributionConfig (Some ''/media'') =
          (Inr (Some \<lparr>Id' = Some ''s3'', DomainName = Some ''b.s3.amazonaws.com'',
                      OriginPath = Some ''/assets''\<rparr>),
           [Console (WarnS3OriginPathNotFound ''/media'')]))"
proof -
  let ?web = "\<lparr>Id' = Some ''web'', DomainName = Some ''www.example.com'', OriginPath = Some []\<rparr>"
  let ?s3 = "\<lparr>Id' = Some ''s3'', DomainName = Some ''b.s3.amazonaws.com'',
              OriginPath = Some ''/assets''\<rparr>"
  obtain dc where dc: "DistributionConfig (example_distribution ''web'') = Some dc"
    and items: "Origins dc = Some [?web, ?s3]"
    and dflt: "DefaultCacheBehavior dc = Some \<lparr>Default_TargetOriginId = Some ''web'',
                                               Default_ViewerProtocolPolicy = Some ''allow-all''\<rparr>"
    by (simp add: example_distribution_def)
  have named: "\<not> list_ex (\<lambda>og. DomainName og = None) [?web, ?s3]" by simp
  have s3: "[?s3] = filter (\<lambda>og. suffix ''.s3.amazonaws.com'' (interpolate (DomainName og))) [?web, ?s3]"
    by (simp add: interpolate_def suffix_to_prefix)
  have t: "truthy (Some ''/media'')" by (simp add: truthy_def)
  have nf: "find (\<lambda>og. OriginPath og = Some ''/media'') [?s3] = None" by simp
  from setS3Origin_unmatched_origin_path[OF items named s3 refl t nf] dflt
  have "setS3Origin dc (Some ''/media'') =
          (Inr (Some ?s3), [Console (WarnS3OriginPathNotFound ''/media'')])"
    by (simp add: interpolate_def)
  then show ?thesis using dc t by simp
qed

end
